theory Spec2Isabelle
  imports Complex_Main "HOL-Library.Sublist"
begin

section \<open>JavaScript strings and values\<close>

text \<open>
  Strings are \<open>char list\<close>. A field that may be \<open>undefined\<close> or \<open>null\<close> is an
  \<open>option\<close>; JavaScript's truthiness of such a field (\<open>undefined\<close>, \<open>null\<close> and the empty
  string are falsy) is \<open>truthy\<close>, and \<open>a || b\<close> on two such fields is \<open>orElse\<close>.
  \<open>toLowerCase\<close> and \<open>trim\<close> are modelled on ASCII text.
\<close>

definition truthy :: "string option \<Rightarrow> bool" where
  "truthy v = (case v of None \<Rightarrow> False | Some s \<Rightarrow> s \<noteq> [])"

definition orElse :: "string option \<Rightarrow> string option \<Rightarrow> string option" where
  "orElse a b = (if truthy a then a else b)"

definition orStr :: "string option \<Rightarrow> string \<Rightarrow> string" where
  "orStr a d = (case a of None \<Rightarrow> d | Some s \<Rightarrow> if s = [] then d else s)"

definition lowerChar :: "char \<Rightarrow> char" where
  "lowerChar c =
     (case map_of (zip ''ABCDEFGHIJKLMNOPQRSTUVWXYZ'' ''abcdefghijklmnopqrstuvwxyz'') c of
        None \<Rightarrow> c | Some d \<Rightarrow> d)"

definition toLowerCase :: "string \<Rightarrow> string" where
  "toLowerCase s = map lowerChar s"

definition isSpace :: "char \<Rightarrow> bool" where
  "isSpace c = (c \<in> set [CHR '' '', CHR 0x09, CHR 0x0A, CHR 0x0B, CHR 0x0C, CHR 0x0D])"

definition trim :: "string \<Rightarrow> string" where
  "trim s = rev (dropWhile isSpace (rev (dropWhile isSpace s)))"

text \<open>\<open>s.includes(t)\<close>: \<open>t\<close> occurs in \<open>s\<close> as a contiguous substring.\<close>

fun str_includes :: "string \<Rightarrow> string \<Rightarrow> bool" where
  "str_includes [] t = (t = [])"
| "str_includes (c # s) t = (prefix t (c # s) \<or> str_includes s t)"

text \<open>\<open>parts.join(sep)\<close>.\<close>

fun join :: "string \<Rightarrow> string list \<Rightarrow> string" where
  "join sep [] = []"
| "join sep [x] = x"
| "join sep (x # y # ys) = x @ sep @ join sep (y # ys)"

text \<open>\<open>s.split(/[,;/]|\n/)\<close>: split at every comma, semicolon, slash or newline.\<close>

definition isSeparator :: "char \<Rightarrow> bool" where
  "isSeparator c = (c \<in> set [CHR '','', CHR '';'', CHR ''/'', CHR 0x0A])"

fun splitOn :: "(char \<Rightarrow> bool) \<Rightarrow> string \<Rightarrow> string list" where
  "splitOn p [] = [[]]"
| "splitOn p (c # s) =
     (if p c then [] # splitOn p s
      else (case splitOn p s of [] \<Rightarrow> [[c]] | w # ws \<Rightarrow> (c # w) # ws))"

text \<open>\<open>Array.from(new Set(xs))\<close>: the first occurrence of every element, in order.\<close>

fun uniqueFirst :: "'a list \<Rightarrow> 'a list" where
  "uniqueFirst [] = []"
| "uniqueFirst (x # xs) = x # uniqueFirst (filter (\<lambda>y. y \<noteq> x) xs)"

text \<open>A profile field that holds either a string or an array of strings.\<close>

datatype strs = SArr "string list" | SStr string

definition truthyStrs :: "strs option \<Rightarrow> bool" where
  "truthyStrs v = (case v of None \<Rightarrow> False | Some (SArr xs) \<Rightarrow> True | Some (SStr s) \<Rightarrow> s \<noteq> [])"

definition orElseStrs :: "strs option \<Rightarrow> strs option \<Rightarrow> strs option" where
  "orElseStrs a b = (if truthyStrs a then a else b)"

section \<open>Jobs and profiles\<close>

record normalized =
  n_title :: "string option"
  required_skills :: "string list option"
  nice_to_have :: "string list option"
  level :: "string option"
  n_work_mode :: "string option"
  n_summary :: "string option"

record job =
  jid :: "string option"
  job_id :: "string option"
  externalId :: "string option"
  url :: "string option"
  apply_link :: "string option"
  title :: "string option"
  company :: "string option"
  location :: "string option"
  postedAt :: "string option"
  description :: "string option"
  remote :: bool
  country :: "string option"
  countryCode :: "string option"
  source :: "string option"
  summary :: "string option"
  work_mode :: "string option"
  normalized :: "normalized option"

record inferred_preferences =
  work_mode_preference :: "string option"
  focus_area :: "strs option"

record profile =
  skills :: "string list option"
  experience_years :: "rat option"
  roles :: "string list option"
  domains :: "strs option"
  preferred_locations :: "string list option"
  interests :: "strs option"
  preferred_industries :: "strs option"
  preference_industries :: "strs option"
  target_companies :: "strs option"
  preference_target_companies :: "strs option"
  preference_work_modes :: "strs option"
  preference_work_mode :: "string option"
  preferred_work_mode :: "string option"
  inferred_preferences :: "inferred_preferences option"

section \<open>Preference signals (utils/preferences.js)\<close>

definition REMOTE_KEYWORDS :: "string list" where
  "REMOTE_KEYWORDS = [''remote'', ''work from home'', ''wfh'', ''anywhere'', ''distributed'']"

definition HYBRID_KEYWORDS :: "string list" where
  "HYBRID_KEYWORDS = [''hybrid'', ''flexible location'', ''split between'']"

definition ONSITE_KEYWORDS :: "string list" where
  "ONSITE_KEYWORDS = [''on-site'', ''onsite'', ''on site'', ''office-based'']"

definition normalizeStringArray :: "strs option \<Rightarrow> string list" where
  "normalizeStringArray input =
     (case input of
        None \<Rightarrow> []
      | Some (SArr xs) \<Rightarrow> filter (\<lambda>v. v \<noteq> []) (map trim xs)
      | Some (SStr s) \<Rightarrow>
          (if s = [] then [] else filter (\<lambda>v. v \<noteq> []) (map trim (splitOn isSeparator s))))"

definition toLowerUnique :: "string list \<Rightarrow> string list" where
  "toLowerUnique values = uniqueFirst (filter (\<lambda>v. v \<noteq> []) (map toLowerCase values))"

fun firstTruthy :: "string option list \<Rightarrow> string option" where
  "firstTruthy [] = None"
| "firstTruthy (c # cs) =
     (case c of
        None \<Rightarrow> firstTruthy cs
      | Some s \<Rightarrow> if s \<noteq> [] \<and> trim s \<noteq> [] then Some (trim s) else firstTruthy cs)"

definition workModeMatchesPreference :: "string option \<Rightarrow> string option \<Rightarrow> bool" where
  "workModeMatchesPreference preference mode =
     (if \<not> truthy preference \<or> \<not> truthy mode then True
      else if preference = Some ''remote'' then mode = Some ''remote'' \<or> mode = Some ''hybrid''
      else if preference = Some ''hybrid'' then mode = Some ''hybrid''
      else if preference = Some ''onsite'' \<or> preference = Some ''on-site''
        then mode = Some ''onsite'' \<or> mode = Some ''hybrid''
      else True)"

text \<open>
  The text that \<open>inferWorkMode\<close> and \<open>evaluateJobAgainstPreferences\<close> both build:
  the truthy ones of six fields, joined by a blank and lower-cased.
\<close>

definition field :: "job option \<Rightarrow> (job \<Rightarrow> string option) \<Rightarrow> string option" where
  "field j f = (case j of None \<Rightarrow> None | Some x \<Rightarrow> f x)"

definition nfield :: "job option \<Rightarrow> (normalized \<Rightarrow> string option) \<Rightarrow> string option" where
  "nfield j f =
     (case j of None \<Rightarrow> None
      | Some x \<Rightarrow> (case normalized x of None \<Rightarrow> None | Some n \<Rightarrow> f n))"

definition jobText :: "job option \<Rightarrow> job option \<Rightarrow> string" where
  "jobText normalizedJob rawJob =
     toLowerCase (join '' '' (map the (filter truthy
       [nfield normalizedJob n_summary,
        field normalizedJob summary,
        field normalizedJob description,
        field rawJob description,
        field normalizedJob title,
        field rawJob title])))"

definition inferWorkMode :: "job option \<Rightarrow> job option \<Rightarrow> string option" where
  "inferWorkMode normalizedJob rawJob =
     (let normalizedMode = orElse (nfield normalizedJob n_work_mode) (field normalizedJob work_mode)
      in if truthy normalizedMode then Some (toLowerCase (the normalizedMode))
         else
           (let text = jobText normalizedJob rawJob
            in if text = [] then None
               else if list_ex (\<lambda>keyword. str_includes text keyword) REMOTE_KEYWORDS then Some ''remote''
               else if list_ex (\<lambda>keyword. str_includes text keyword) HYBRID_KEYWORDS then Some ''hybrid''
               else if list_ex (\<lambda>keyword. str_includes text keyword) ONSITE_KEYWORDS then Some ''onsite''
               else None))"

record signals =
  workMode :: "string option"
  workModes :: "string list"
  locations :: "string list"
  locationsOriginal :: "string list"
  industries :: "string list"
  industriesOriginal :: "string list"
  targetCompanies :: "string list"
  targetCompaniesOriginal :: "string list"
  interestKeywords :: "string list"

definition buildPreferenceSignals :: "profile \<Rightarrow> signals" where
  "buildPreferenceSignals p =
     (let industriesList = normalizeStringArray
            (orElseStrs (preferred_industries p) (orElseStrs (preference_industries p) (domains p)));
          companiesList = normalizeStringArray
            (orElseStrs (target_companies p) (preference_target_companies p));
          locationList = normalizeStringArray (map_option SArr (preferred_locations p));
          interestsList = normalizeStringArray (interests p);
          focusAreaList = normalizeStringArray
            (case inferred_preferences p of None \<Rightarrow> None | Some ip \<Rightarrow> focus_area ip);
          allInterestKeywords = toLowerUnique
            (interestsList @ industriesList @ focusAreaList
               @ (case roles p of None \<Rightarrow> [] | Some rs \<Rightarrow> rs));
          preferredWorkModeList = normalizeStringArray (preference_work_modes p);
          legacyWorkMode = firstTruthy
            [preference_work_mode p, preferred_work_mode p,
             (case inferred_preferences p of None \<Rightarrow> None | Some ip \<Rightarrow> work_mode_preference ip)];
          resolvedWorkModes =
            (if preferredWorkModeList \<noteq> [] then preferredWorkModeList
             else (case legacyWorkMode of Some m \<Rightarrow> [m] | None \<Rightarrow> []));
          primaryWorkMode =
            (case resolvedWorkModes of [] \<Rightarrow> None | m # _ \<Rightarrow> Some (toLowerCase m))
      in \<lparr> workMode = primaryWorkMode,
           workModes = toLowerUnique resolvedWorkModes,
           locations = toLowerUnique locationList,
           locationsOriginal = locationList,
           industries = toLowerUnique industriesList,
           industriesOriginal = industriesList,
           targetCompanies = toLowerUnique companiesList,
           targetCompaniesOriginal = companiesList,
           interestKeywords = allInterestKeywords \<rparr>)"


record matches =
  m_workMode :: bool
  m_company :: bool
  m_industry :: bool
  m_interests :: bool
  m_location :: bool

record mismatches =
  mm_workMode :: bool
  mm_location :: bool
  mm_industry :: bool

record evaluation =
  adjustment :: int
  exclude :: bool
  e_matches :: matches
  e_mismatches :: mismatches
  e_workMode :: "string option"

text \<open>
  \<open>evaluateJobAgainstPreferences\<close> adds to \<open>adjustment\<close> in five consecutive blocks. Each
  block is a function that returns what it adds and the flags it sets, in this order:
  the amount, the \<open>matches\<close> flag and the \<open>mismatches\<close> flag.
\<close>

definition workModeBlock :: "string option \<Rightarrow> string option \<Rightarrow> int \<times> bool \<times> bool" where
  "workModeBlock signalsWorkMode jobMode =
     (if truthy signalsWorkMode then
        (if truthy jobMode then
           (if workModeMatchesPreference signalsWorkMode jobMode then (12, True, False)
            else (- (if signalsWorkMode = Some ''remote'' then 24 else 18), False, True))
         else if signalsWorkMode = Some ''remote'' then (- 14, False, True)
         else (0, False, False))
      else (0, False, False))"

definition locationBlock ::
  "string list \<Rightarrow> string option \<Rightarrow> string \<Rightarrow> string option \<Rightarrow> int \<times> bool \<times> bool" where
  "locationBlock signalsLocations signalsWorkMode jobLocation jobMode =
     (if signalsLocations \<noteq> [] then
        (let normalizedLocation = (if jobLocation \<noteq> [] then trim jobLocation else []);
             locationMatches = list_ex (\<lambda>loc. str_includes normalizedLocation loc) signalsLocations;
             remoteFriendly =
               (str_includes normalizedLocation ''remote'' \<or>
                str_includes normalizedLocation ''anywhere'' \<or>
                jobMode = Some ''remote'' \<or>
                jobMode = Some ''hybrid'')
         in if locationMatches then (6, True, False)
            else if normalizedLocation = [] then (- 2, False, False)
            else if remoteFriendly
              then (- (if signalsWorkMode = Some ''remote'' then 2 else 4), False, False)
            else (- (if signalsWorkMode = Some ''remote'' then 14 else 10), False, True))
      else (0, False, False))"

definition companyBlock :: "string list \<Rightarrow> string \<Rightarrow> int \<times> bool" where
  "companyBlock signalsTargetCompanies jobCompany =
     (if signalsTargetCompanies \<noteq> [] \<and> jobCompany \<noteq> [] then
        (if list_ex (\<lambda>company. str_includes jobCompany company) signalsTargetCompanies
         then (15, True) else (0, False))
      else (0, False))"

definition industryBlock :: "string list \<Rightarrow> string \<Rightarrow> int \<times> bool \<times> bool" where
  "industryBlock signalsIndustries text =
     (if signalsIndustries \<noteq> [] \<and> text \<noteq> [] then
        (if list_ex (\<lambda>industry. str_includes text industry) signalsIndustries
         then (8, True, False) else (- 6, False, True))
      else (0, False, False))"

definition interestBlock :: "bool \<Rightarrow> string list \<Rightarrow> string \<Rightarrow> int \<times> bool" where
  "interestBlock industryMatched signalsInterestKeywords text =
     (if \<not> industryMatched \<and> signalsInterestKeywords \<noteq> [] \<and> text \<noteq> [] then
        (if list_ex (\<lambda>keyword. str_includes text keyword) signalsInterestKeywords
         then (5, True) else (0, False))
      else (0, False))"

text \<open>
  The variable \<open>exclude\<close> is initialised to \<open>false\<close> and never assigned again. Without
  signals the function returns empty \<open>matches\<close> and \<open>mismatches\<close> objects, whose flags all
  read as falsy.
\<close>

definition evaluateJobAgainstPreferences ::
  "job option \<Rightarrow> job option \<Rightarrow> signals option \<Rightarrow> evaluation" where
  "evaluateJobAgainstPreferences normalizedJob rawJob sigs =
     (case sigs of
        None \<Rightarrow>
          \<lparr> adjustment = 0, exclude = False,
            e_matches = \<lparr> m_workMode = False, m_company = False, m_industry = False,
                          m_interests = False, m_location = False \<rparr>,
            e_mismatches = \<lparr> mm_workMode = False, mm_location = False, mm_industry = False \<rparr>,
            e_workMode = None \<rparr>
      | Some signals \<Rightarrow>
          (let exclude0 = False;
               jobCompany = toLowerCase
                 (orStr (orElse (field normalizedJob company) (field rawJob company)) []);
               jobLocation = toLowerCase
                 (orStr (orElse (field normalizedJob location) (field rawJob location)) []);
               text = jobText normalizedJob rawJob;
               jobMode = inferWorkMode normalizedJob rawJob;
               (a1, mWork, mmWork) = workModeBlock (workMode signals) jobMode;
               (a2, mLoc, mmLoc) =
                 locationBlock (locations signals) (workMode signals) jobLocation jobMode;
               (a3, mComp) = companyBlock (targetCompanies signals) jobCompany;
               (a4, mInd, mmInd) = industryBlock (industries signals) text;
               (a5, mInt) = interestBlock mInd (interestKeywords signals) text
           in \<lparr> adjustment = a1 + a2 + a3 + a4 + a5, exclude = exclude0,
                e_matches = \<lparr> m_workMode = mWork, m_company = mComp, m_industry = mInd,
                              m_interests = mInt, m_location = mLoc \<rparr>,
                e_mismatches = \<lparr> mm_workMode = mmWork, mm_location = mmLoc,
                                 mm_industry = mmInd \<rparr>,
                e_workMode = jobMode \<rparr>))"


section \<open>Base score (agents/matchExplanationAgent.js)\<close>

text \<open>
  Numbers are rationals. \<open>Math.round\<close> rounds to the nearest integer, a half upwards.
\<close>

definition Math_round :: "rat \<Rightarrow> int" where
  "Math_round x = \<lfloor>x + 1 / 2\<rfloor>"

record details =
  d_skills :: rat
  niceToHave :: rat
  experience :: rat
  d_location :: rat
  d_workMode :: rat
  preferenceAdjustment :: rat

record options =
  o_rawJob :: "job option"
  includeDetails :: bool
  o_preferenceSignals :: "signals option"

record payload =
  score :: int
  excluded :: bool
  p_details :: details
  preferenceSignals :: "signals option"
  inferredWorkMode :: "string option"

text \<open>\<open>computeBaseScore\<close> returns a number, or an object when \<open>includeDetails\<close> is set.\<close>

datatype base_score = Plain int | Payload payload

definition scoreOf :: "base_score \<Rightarrow> int" where
  "scoreOf r = (case r of Plain n \<Rightarrow> n | Payload q \<Rightarrow> score q)"

definition skillMatched :: "string list \<Rightarrow> string \<Rightarrow> bool" where
  "skillMatched profileSkills s =
     list_ex (\<lambda>ps. str_includes ps s \<or> str_includes s ps) profileSkills"

text \<open>The chain of \<open>if\<close>/\<open>else if\<close> on the job's level: what it adds to the score.\<close>

definition experiencePoints :: "string option \<Rightarrow> rat \<Rightarrow> rat" where
  "experiencePoints jobLevel profileExp =
     (if jobLevel = Some ''intern'' \<and> profileExp < 2 then 20
      else if jobLevel = Some ''junior'' \<and> profileExp \<ge> 1 / 2 \<and> profileExp < 3 then 20
      else if jobLevel = Some ''mid'' \<and> profileExp \<ge> 2 \<and> profileExp < 5 then 20
      else if jobLevel = Some ''senior'' \<and> profileExp \<ge> 4 then 20
      else if jobLevel = Some ''lead'' \<and> profileExp \<ge> 6 then 20
      else 0)"

definition locationPoints :: "string \<Rightarrow> string list \<Rightarrow> rat" where
  "locationPoints jobLocation preferredLocations =
     (if str_includes jobLocation ''remote'' \<and>
         (List.member preferredLocations ''remote'' \<or> preferredLocations = []) then 15
      else if list_ex (\<lambda>loc. str_includes jobLocation loc \<or>
                 str_includes loc (takeWhile (\<lambda>c. c \<noteq> CHR '','') jobLocation)) preferredLocations
        then 15
      else 0)"

definition workModePoints :: "string option \<Rightarrow> string option \<Rightarrow> rat" where
  "workModePoints jobWorkMode preferredMode =
     (if truthy jobWorkMode \<and> truthy preferredMode \<and> jobWorkMode = preferredMode then 15
      else if \<not> truthy preferredMode then 10
      else 0)"

text \<open>
  The first part of \<open>computeBaseScore\<close>, up to the call of the preference evaluator:
  the running score and the details collected so far.
\<close>

definition scoreBeforePreferences :: "profile \<Rightarrow> job \<Rightarrow> rat \<times> details" where
  "scoreBeforePreferences p j =
     (let profileSkills = map toLowerCase (case skills p of None \<Rightarrow> [] | Some xs \<Rightarrow> xs);
          requiredSkills = map toLowerCase
            (case normalized j of None \<Rightarrow> []
             | Some n \<Rightarrow> (case required_skills n of None \<Rightarrow> [] | Some xs \<Rightarrow> xs));
          niceSkills = map toLowerCase
            (case normalized j of None \<Rightarrow> []
             | Some n \<Rightarrow> (case nice_to_have n of None \<Rightarrow> [] | Some xs \<Rightarrow> xs));
          matchedRequired = length (filter (skillMatched profileSkills) requiredSkills);
          matchedNice = length (filter (skillMatched profileSkills) niceSkills);
          requiredPoints =
            (if length requiredSkills > 0
             then (of_nat matchedRequired / of_nat (length requiredSkills)) * 30 else 0);
          nicePoints = (of_nat matchedNice / of_nat (max (length niceSkills) 1)) * 10;
          profileExp = (case experience_years p of None \<Rightarrow> 0 | Some y \<Rightarrow> y);
          jobLevel = (case normalized j of None \<Rightarrow> None | Some n \<Rightarrow> level n);
          expPoints = experiencePoints jobLevel profileExp;
          jobLocation = toLowerCase (orStr (location j) []);
          preferredLocations = map toLowerCase
            (case preferred_locations p of None \<Rightarrow> [] | Some xs \<Rightarrow> xs);
          locPoints = locationPoints jobLocation preferredLocations;
          jobWorkMode = (case normalized j of None \<Rightarrow> None | Some n \<Rightarrow> n_work_mode n);
          preferredMode =
            (case inferred_preferences p of None \<Rightarrow> None | Some ip \<Rightarrow> work_mode_preference ip);
          modePoints = workModePoints jobWorkMode preferredMode
      in (50 + requiredPoints + nicePoints + expPoints + locPoints + modePoints,
          \<lparr> d_skills = of_int (Math_round (requiredPoints * 10)) / 10,
            niceToHave = of_int (Math_round (nicePoints * 10)) / 10,
            experience = expPoints,
            d_location = locPoints,
            d_workMode = modePoints,
            preferenceAdjustment = 0 \<rparr>))"

text \<open>
  The last part of \<open>computeBaseScore\<close>, from the test of \<open>exclude\<close> on: given the
  evaluator's result, the running score and the details.
\<close>

definition applyEvaluation ::
  "evaluation \<Rightarrow> rat \<Rightarrow> details \<Rightarrow> bool \<Rightarrow> signals \<Rightarrow> string option \<Rightarrow> base_score" where
  "applyEvaluation ev score0 details0 withDetails sigs inferred =
     (if exclude ev then
        (if withDetails
         then Payload \<lparr> score = 0, excluded = True,
                        p_details = details0\<lparr> preferenceAdjustment := of_int (adjustment ev) \<rparr>,
                        preferenceSignals = None, inferredWorkMode = None \<rparr>
         else Plain 0)
      else
        (let score1 = score0 + of_int (adjustment ev);
             details1 = details0\<lparr> preferenceAdjustment :=
                          of_int (Math_round (of_int (adjustment ev) * 10)) / 10 \<rparr>;
             finalScore = min 100 (max 0 (Math_round score1))
         in if withDetails
            then Payload \<lparr> score = finalScore, excluded = False, p_details = details1,
                           preferenceSignals = Some sigs, inferredWorkMode = inferred \<rparr>
            else Plain finalScore))"

definition computeBaseScore :: "profile \<Rightarrow> job \<Rightarrow> options \<Rightarrow> base_score" where
  "computeBaseScore p j opts =
     (let (score0, details0) = scoreBeforePreferences p j;
          sigs = (case o_preferenceSignals opts of
                    Some provided \<Rightarrow> provided | None \<Rightarrow> buildPreferenceSignals p);
          ev = evaluateJobAgainstPreferences (Some j) (o_rawJob opts) (Some sigs)
      in applyEvaluation ev score0 details0 (includeDetails opts) sigs
           (inferWorkMode (Some j) (o_rawJob opts)))"




section \<open>Job identity (controllers/jobController.js, services/jobAggregator.js)\<close>

definition getJobCacheKey :: "job option \<Rightarrow> string option" where
  "getJobCacheKey j =
     (case j of
        None \<Rightarrow> None
      | Some x \<Rightarrow>
          Some (orStr
            (orElse (jid x) (orElse (job_id x) (orElse (externalId x)
               (orElse (url x) (apply_link x)))))
            (orStr (title x) ''unknown'' @ ''|'' @ orStr (company x) ''unknown'' @ ''|'' @
             orStr (location x) ''unknown'' @ ''|'' @ orStr (postedAt x) [])))"

definition getNormalizedJobRedisKey :: "string \<Rightarrow> string" where
  "getNormalizedJobRedisKey cacheKey = ''job:normalized:'' @ cacheKey"

definition getMatchRedisKey :: "string \<Rightarrow> string \<Rightarrow> string" where
  "getMatchRedisKey profileKey jobKey = ''match:'' @ profileKey @ '':'' @ jobKey"

text \<open>
  The key under which \<open>normalizeJobWithCache\<close> stores a job, and the key under which
  \<open>getMatchOrSchedule\<close> stores its match; a key that is \<open>null\<close> or empty gives \<open>null\<close>.
\<close>

definition normalizationRedisKey :: "job option \<Rightarrow> string option" where
  "normalizationRedisKey j =
     (let cacheKey = getJobCacheKey j
      in if truthy cacheKey then Some (getNormalizedJobRedisKey (the cacheKey)) else None)"

definition matchCacheKey :: "string \<Rightarrow> job option \<Rightarrow> string option" where
  "matchCacheKey profileKey rawJob =
     (let jobKey = getJobCacheKey rawJob
      in if truthy jobKey then Some (getMatchRedisKey profileKey (the jobKey)) else None)"

text \<open>A natural number in decimal, as a template literal prints it.\<close>

fun showNat :: "nat \<Rightarrow> string" where
  "showNat n = (if n < 10 then [''0123456789'' ! n]
                else showNat (n div 10) @ [''0123456789'' ! (n mod 10)])"

declare showNat.simps [simp del]

text \<open>
  The key of a job inside \<open>uniqueById\<close>, when \<open>result\<close> holds \<open>n\<close> jobs already.
\<close>

definition dedupKey :: "job \<Rightarrow> nat \<Rightarrow> string" where
  "dedupKey x n =
     orStr (jid x)
       (orStr (title x) ''unknown'' @ ''-'' @ orStr (company x) ''unknown'' @ ''-'' @
        orStr (location x) ''na'' @ ''-'' @ showNat n)"

text \<open>
  The loop of \<open>uniqueById\<close>, with its two variables \<open>seen\<close> and \<open>result\<close>; an entry of
  the input that is \<open>null\<close> is skipped.
\<close>

fun uniqueByIdLoop :: "job option list \<Rightarrow> string set \<Rightarrow> job list \<Rightarrow> job list" where
  "uniqueByIdLoop [] seen result = result"
| "uniqueByIdLoop (None # jobs) seen result = uniqueByIdLoop jobs seen result"
| "uniqueByIdLoop (Some x # jobs) seen result =
     (let key = dedupKey x (length result)
      in if key \<in> seen then uniqueByIdLoop jobs seen result
         else uniqueByIdLoop jobs (insert key seen) (result @ [x]))"

definition uniqueById :: "job option list \<Rightarrow> job list" where
  "uniqueById jobs = uniqueByIdLoop jobs {} []"

text \<open>The keys of a list of jobs, each computed at the job's own position.\<close>

definition keysAt :: "job list \<Rightarrow> string list" where
  "keysAt xs = map (\<lambda>(x, n). dedupKey x n) (zip xs [0..<length xs])"

section \<open>Cache operations (config/redis.js)\<close>

text \<open>
  The Redis client is the environment. An awaited call of the client has one of three
  outcomes: it returns a value, it throws (the promise is rejected, with a message), or it
  never settles. The last is what \<open>connect\<close> does while the cache cannot be reached: the
  client as \<open>createClient({ url })\<close> sets it up keeps trying to reconnect, and the
  promise neither resolves nor rejects; commands sent meanwhile wait with it.
  \<open>parse\<close> is \<open>JSON.parse\<close> and \<open>stringify\<close> is \<open>JSON.stringify\<close>, which return or
  throw; a parsed value of \<open>None\<close> is JavaScript's \<open>null\<close>.
\<close>

datatype 'a outcome = Returns 'a | Throws string | Never

record 'v client =
  isOpen :: bool
  connect :: "unit outcome"
  get :: "string \<Rightarrow> string option outcome"
  set_ex :: "string \<Rightarrow> string \<Rightarrow> rat option \<Rightarrow> unit outcome"
  del :: "string \<Rightarrow> unit outcome"
  parse :: "string \<Rightarrow> string + 'v option"
  stringify :: "'v \<Rightarrow> string + string"

definition ensureConnection :: "'v client \<Rightarrow> bool outcome" where
  "ensureConnection c =
     (if isOpen c then Returns True
      else (case connect c of
              Returns u \<Rightarrow> Returns True
            | Throws err \<Rightarrow> Returns False
            | Never \<Rightarrow> Never))"

definition getJson :: "'v client \<Rightarrow> string option \<Rightarrow> 'v option outcome" where
  "getJson c key =
     (if \<not> truthy key then Returns None
      else (case ensureConnection c of
              Never \<Rightarrow> Never
            | Throws err \<Rightarrow> Throws err
            | Returns isConnected \<Rightarrow>
                (if \<not> isConnected then Returns None
                 else (case get c (the key) of
                         Never \<Rightarrow> Never
                       | Throws err \<Rightarrow> Throws err
                       | Returns raw \<Rightarrow>
                           (if \<not> truthy raw then Returns None
                            else (case parse c (the raw) of
                                    Inl err \<Rightarrow> Returns None
                                  | Inr v \<Rightarrow> Returns v))))))"

definition setJson :: "'v client \<Rightarrow> string option \<Rightarrow> 'v \<Rightarrow> rat option \<Rightarrow> bool outcome" where
  "setJson c key v ttlSeconds =
     (if \<not> truthy key then Returns False
      else (case ensureConnection c of
              Never \<Rightarrow> Never
            | Throws err \<Rightarrow> Throws err
            | Returns isConnected \<Rightarrow>
                (if \<not> isConnected then Returns False
                 else (case stringify c v of
                         Inl err \<Rightarrow> Throws err
                       | Inr payload \<Rightarrow>
                           (case (if ttlSeconds \<noteq> None \<and> the ttlSeconds > 0
                                  then set_ex c (the key) payload ttlSeconds
                                  else set_ex c (the key) payload None) of
                              Never \<Rightarrow> Never
                            | Throws err \<Rightarrow> Throws err
                            | Returns u \<Rightarrow> Returns True)))))"

definition deleteKey :: "'v client \<Rightarrow> string option \<Rightarrow> bool outcome" where
  "deleteKey c key =
     (if \<not> truthy key then Returns False
      else (case ensureConnection c of
              Never \<Rightarrow> Never
            | Throws err \<Rightarrow> Throws err
            | Returns isConnected \<Rightarrow>
                (if \<not> isConnected then Returns False
                 else (case del c (the key) of
                         Never \<Rightarrow> Never
                       | Throws err \<Rightarrow> Throws err
                       | Returns u \<Rightarrow> Returns True))))"

section \<open>Match orchestration (controllers/jobController.js)\<close>

text \<open>
  A cached match. Only \<open>status\<close> and \<open>score\<close> are kept: no branch of the orchestration
  reads \<open>summary\<close>, \<open>missing_skills\<close>, \<open>reasoning\<close> or \<open>suggestions\<close>.
\<close>

record match =
  m_status :: "string option"
  m_score :: int

definition buildPendingMatch :: "int \<Rightarrow> match" where
  "buildPendingMatch baseScore = \<lparr> m_status = Some ''pending'', m_score = baseScore \<rparr>"

text \<open>
  \<open>getMatchOrSchedule\<close> is an \<open>async\<close> function: it runs until its next \<open>await\<close>,
  and other work runs before it resumes. Where one invocation stands:
  \<^item> \<open>Start\<close>: \<open>getJson(cacheKey)\<close> is called, the cache is not read yet;
  \<^item> \<open>AfterRead v\<close>: \<open>getJson\<close> has the value \<open>v\<close>, the invocation has not resumed;
  \<^item> \<open>AwaitWrite\<close>: the placeholder is built and \<open>setJson\<close> is called, nothing written yet;
  \<^item> \<open>AfterWrite\<close>: \<open>setJson\<close> is over, the invocation has not resumed;
  \<^item> \<open>Done m st\<close>: returned \<open>{match: m, status: st}\<close>;
  \<^item> \<open>Failed e\<close>: an exception of a cache call left the function.
\<close>

datatype pc = Start | AfterRead "match option" | AwaitWrite | AfterWrite
  | Done "match option" string | Failed string

record call =
  c_hasProfile :: bool
  c_key :: "string option"
  c_baseScore :: int
  c_pc :: pc

text \<open>
  A background computation queued by \<open>scheduleMatchExplanation\<close>: \<open>Queued\<close> until
  \<open>explainMatch\<close> and the write of its result are over, \<open>Finishing\<close> until its
  \<open>finally\<close> block has run. After that it is gone.
\<close>

datatype phase = Queued | Finishing

record state =
  cache :: "string \<rightharpoonup> match"
  pendingMatchComputations :: "string set"
  calls :: "call list"
  tasks :: "(string \<times> phase) list"
  scheduleLog :: "string list"

definition initial :: "(string \<rightharpoonup> match) \<Rightarrow> state" where
  "initial cache0 =
     \<lparr> cache = cache0, pendingMatchComputations = {}, calls = [], tasks = [],
       scheduleLog = [] \<rparr>"

text \<open>
  \<open>scheduleMatchExplanation\<close> queues the computation with \<open>setImmediate\<close>;
  \<open>scheduleLog\<close> records every call of it.
\<close>

definition scheduleMatchExplanation :: "string \<Rightarrow> state \<Rightarrow> state" where
  "scheduleMatchExplanation cacheKey s =
     s\<lparr> tasks := tasks s @ [(cacheKey, Queued)], scheduleLog := scheduleLog s @ [cacheKey] \<rparr>"

text \<open>
  The test of the pending set and the two statements it guards run without an \<open>await\<close>
  between them.
\<close>

definition scheduleUnlessPending :: "string \<Rightarrow> state \<Rightarrow> state" where
  "scheduleUnlessPending cacheKey s =
     (if cacheKey \<notin> pendingMatchComputations s
      then scheduleMatchExplanation cacheKey
             (s\<lparr> pendingMatchComputations := insert cacheKey (pendingMatchComputations s) \<rparr>)
      else s)"

definition setPc :: "nat \<Rightarrow> pc \<Rightarrow> state \<Rightarrow> state" where
  "setPc i q s = s\<lparr> calls := (calls s)[i := (calls s ! i)\<lparr> c_pc := q \<rparr>] \<rparr>"

text \<open>
  What can happen next:
  \<^item> \<open>Invoke hasProfile profileKey rawJob baseScore\<close>: \<open>getMatchOrSchedule\<close> is called;
  \<^item> \<open>ReadOk i\<close>: the cache answers the read of invocation \<open>i\<close>; \<open>ReadNull i\<close>:
    \<open>getJson\<close> gives \<open>null\<close> without an entry (no connection, unusable value);
    \<open>ReadThrow i e\<close>: it throws;
  \<^item> \<open>Continue i\<close>: invocation \<open>i\<close> resumes after its read;
  \<^item> \<open>WriteOk i\<close>: the cache stores the placeholder of invocation \<open>i\<close>; \<open>WriteSoft i\<close>:
    \<open>setJson\<close> gives \<open>false\<close> and stores nothing; \<open>WriteThrow i e\<close>: it throws;
  \<^item> \<open>Resume i\<close>: invocation \<open>i\<close> resumes after its write;
  \<^item> \<open>BgReady t m\<close>: \<open>explainMatch\<close> of computation \<open>t\<close> gave \<open>m\<close> and the cache
    stores it with status \<open>ready\<close>; \<open>BgError t\<close>: the computation or its write failed,
    nothing is stored;
  \<^item> \<open>BgFinally t\<close>: the \<open>finally\<close> block of computation \<open>t\<close> runs;
  \<^item> \<open>Expire k\<close>: the time to live of the entry under \<open>k\<close> ends.
  An event that cannot happen in a state gives \<open>None\<close>.
\<close>

datatype event =
    Invoke bool string "job option" int
  | ReadOk nat | ReadNull nat | ReadThrow nat string
  | Continue nat
  | WriteOk nat | WriteSoft nat | WriteThrow nat string
  | Resume nat
  | BgReady nat match | BgError nat | BgFinally nat
  | Expire string

definition pcAt :: "state \<Rightarrow> nat \<Rightarrow> (string \<times> int \<times> pc) option" where
  "pcAt s i =
     (if i < length (calls s)
      then (case c_key (calls s ! i) of
              None \<Rightarrow> None
            | Some k \<Rightarrow> Some (k, c_baseScore (calls s ! i), c_pc (calls s ! i)))
      else None)"

definition taskAt :: "state \<Rightarrow> nat \<Rightarrow> (string \<times> phase) option" where
  "taskAt s t = (if t < length (tasks s) then Some (tasks s ! t) else None)"

fun fire :: "event \<Rightarrow> state \<Rightarrow> state option" where
  "fire (Invoke hasProfile profileKey rawJob baseScore) s =
     (let cacheKey = matchCacheKey profileKey rawJob;
          q = (if \<not> hasProfile then Done None ''unavailable''
               else if cacheKey = None then Done (Some (buildPendingMatch baseScore)) ''pending''
               else Start)
      in Some (s\<lparr> calls := calls s @
                 [\<lparr> c_hasProfile = hasProfile, c_key = cacheKey, c_baseScore = baseScore,
                    c_pc = q \<rparr>] \<rparr>))"
| "fire (ReadOk i) s =
     (case pcAt s i of
        Some (k, b, Start) \<Rightarrow> Some (setPc i (AfterRead (cache s k)) s)
      | _ \<Rightarrow> None)"
| "fire (ReadNull i) s =
     (case pcAt s i of
        Some (k, b, Start) \<Rightarrow> Some (setPc i (AfterRead None) s)
      | _ \<Rightarrow> None)"
| "fire (ReadThrow i e) s =
     (case pcAt s i of
        Some (k, b, Start) \<Rightarrow> Some (setPc i (Failed e) s)
      | _ \<Rightarrow> None)"
| "fire (Continue i) s =
     (case pcAt s i of
        Some (k, b, AfterRead (Some cached)) \<Rightarrow>
          (let status = orStr (m_status cached) ''ready'';
               s1 = (if status = ''pending'' then scheduleUnlessPending k s else s)
           in Some (setPc i (Done (Some (cached\<lparr> m_status := Some status \<rparr>)) status) s1))
      | Some (k, b, AfterRead None) \<Rightarrow> Some (setPc i AwaitWrite s)
      | _ \<Rightarrow> None)"
| "fire (WriteOk i) s =
     (case pcAt s i of
        Some (k, b, AwaitWrite) \<Rightarrow>
          Some (setPc i AfterWrite (s\<lparr> cache := (cache s)(k \<mapsto> buildPendingMatch b) \<rparr>))
      | _ \<Rightarrow> None)"
| "fire (WriteSoft i) s =
     (case pcAt s i of
        Some (k, b, AwaitWrite) \<Rightarrow> Some (setPc i AfterWrite s)
      | _ \<Rightarrow> None)"
| "fire (WriteThrow i e) s =
     (case pcAt s i of
        Some (k, b, AwaitWrite) \<Rightarrow> Some (setPc i (Failed e) s)
      | _ \<Rightarrow> None)"
| "fire (Resume i) s =
     (case pcAt s i of
        Some (k, b, AfterWrite) \<Rightarrow>
          Some (setPc i (Done (Some (buildPendingMatch b)) ''pending'')
                  (scheduleUnlessPending k s))
      | _ \<Rightarrow> None)"
| "fire (BgReady t detailed) s =
     (case taskAt s t of
        Some (k, Queued) \<Rightarrow>
          Some (s\<lparr> cache := (cache s)(k \<mapsto> detailed\<lparr> m_status := Some ''ready'' \<rparr>),
                   tasks := (tasks s)[t := (k, Finishing)] \<rparr>)
      | _ \<Rightarrow> None)"
| "fire (BgError t) s =
     (case taskAt s t of
        Some (k, Queued) \<Rightarrow> Some (s\<lparr> tasks := (tasks s)[t := (k, Finishing)] \<rparr>)
      | _ \<Rightarrow> None)"
| "fire (BgFinally t) s =
     (case taskAt s t of
        Some (k, Finishing) \<Rightarrow>
          Some (s\<lparr> tasks := take t (tasks s) @ drop (Suc t) (tasks s),
                   pendingMatchComputations := pendingMatchComputations s - {k} \<rparr>)
      | _ \<Rightarrow> None)"
| "fire (Expire k) s = Some (s\<lparr> cache := (cache s)(k := None) \<rparr>)"

fun run :: "event list \<Rightarrow> state \<Rightarrow> state option" where
  "run [] s = Some s"
| "run (e # es) s = (case fire e s of None \<Rightarrow> None | Some s' \<Rightarrow> run es s')"

text \<open>The keys of the computations in flight, and the status stored under a key.\<close>

definition inFlight :: "state \<Rightarrow> string list" where
  "inFlight s = map fst (tasks s)"

definition statusAt :: "state \<Rightarrow> string \<Rightarrow> string option" where
  "statusAt s k = (case cache s k of None \<Rightarrow> None | Some m \<Rightarrow> Some (orStr (m_status m) ''ready''))"






definition isPendingMatch :: "match \<Rightarrow> bool" where
  "isPendingMatch m = (orStr (m_status m) ''ready'' = ''pending'')"



section \<open>Match orchestration over the one connection of the client\<close>

text \<open>
  \<open>config/redis.js\<close> creates one client, and every \<open>getJson\<close> and \<open>setJson\<close> goes through
  it. The client sends its commands over one connection: the cache executes them in the
  order in which they were sent and answers in that order, and an answer resumes the
  function that awaits it. While the client is open, \<open>ensureConnection\<close> returns \<open>true\<close>
  and \<open>getJson\<close> and \<open>setJson\<close> send their command in the turn in which they are called.

  A command on its way to the cache: the read of invocation \<open>i\<close>, the write of its
  placeholder, or the write of an explanation. An answer on its way back: the value read,
  the acknowledgement of a write, or the failure of the command.
\<close>

datatype command = Get nat string | SetPlaceholder nat string int | SetReady string match

datatype reply =
    GotValue nat string "match option" | GetFailed nat string
  | PlaceholderStored nat string int | PlaceholderFailed nat string
  | ReadyStored string | ReadyFailed string

record ordered =
  inner :: state
  outbox :: "command list"
  inbox :: "reply list"

definition started :: "(string \<rightharpoonup> match) \<Rightarrow> ordered" where
  "started cache0 = \<lparr> inner = initial cache0, outbox = [], inbox = [] \<rparr>"

text \<open>The cache executes a command; or the command fails with the message \<open>e\<close>.\<close>

fun serve :: "command \<Rightarrow> state \<Rightarrow> state \<times> reply" where
  "serve (Get i k) s = (s, GotValue i k (cache s k))"
| "serve (SetPlaceholder i k b) s =
     (s\<lparr> cache := (cache s)(k \<mapsto> buildPendingMatch b) \<rparr>, PlaceholderStored i k b)"
| "serve (SetReady k detailed) s =
     (s\<lparr> cache := (cache s)(k \<mapsto> detailed\<lparr> m_status := Some ''ready'' \<rparr>) \<rparr>, ReadyStored k)"

fun refuse :: "string \<Rightarrow> command \<Rightarrow> reply" where
  "refuse e (Get i k) = GetFailed i e"
| "refuse e (SetPlaceholder i k b) = PlaceholderFailed i e"
| "refuse e (SetReady k detailed) = ReadyFailed k"

text \<open>The \<open>finally\<close> block of the computation for \<open>k\<close>, after the write of its result.\<close>

definition finishTask :: "string \<Rightarrow> state \<Rightarrow> state" where
  "finishTask k s =
     s\<lparr> tasks := remove1 (k, Finishing) (tasks s),
       pendingMatchComputations := pendingMatchComputations s - {k} \<rparr>"

text \<open>
  An answer resumes the function that awaits it: \<open>getMatchOrSchedule\<close> after its read
  (with an entry, without one, or with an exception) and after the write of its
  placeholder, and the background computation after the write of its result.
\<close>

fun resume :: "reply \<Rightarrow> ordered \<Rightarrow> ordered" where
  "resume (GotValue i k (Some cached)) s =
     (let status = orStr (m_status cached) ''ready'';
          s1 = (if status = ''pending'' then scheduleUnlessPending k (inner s) else inner s)
      in s\<lparr> inner := setPc i (Done (Some (cached\<lparr> m_status := Some status \<rparr>)) status) s1 \<rparr>)"
| "resume (GotValue i k None) s =
     s\<lparr> inner := setPc i AwaitWrite (inner s),
       outbox := outbox s @ [SetPlaceholder i k (c_baseScore (calls (inner s) ! i))] \<rparr>"
| "resume (GetFailed i e) s = s\<lparr> inner := setPc i (Failed e) (inner s) \<rparr>"
| "resume (PlaceholderStored i k b) s =
     s\<lparr> inner := setPc i (Done (Some (buildPendingMatch b)) ''pending'')
                   (scheduleUnlessPending k (inner s)) \<rparr>"
| "resume (PlaceholderFailed i e) s = s\<lparr> inner := setPc i (Failed e) (inner s) \<rparr>"
| "resume (ReadyStored k) s = s\<lparr> inner := finishTask k (inner s) \<rparr>"
| "resume (ReadyFailed k) s = s\<lparr> inner := finishTask k (inner s) \<rparr>"

text \<open>
  What can happen next:
  \<^item> \<open>Call hasProfile profileKey rawJob baseScore\<close>: \<open>getMatchOrSchedule\<close> is called and,
    with a profile and a key, sends its read;
  \<^item> \<open>Serve\<close>: the cache executes the oldest command on its way; \<open>Reject e\<close>: that command
    fails;
  \<^item> \<open>Receive\<close>: the oldest answer on its way arrives;
  \<^item> \<open>Explained t detailed\<close>: \<open>explainMatch\<close> of computation \<open>t\<close> returns and the
    computation sends the write of its result; from then on the computation is
    \<open>Finishing\<close>;
  \<^item> \<open>ExplainFailed t\<close>: \<open>explainMatch\<close> throws, \<open>catch\<close> and \<open>finally\<close> run;
  \<^item> \<open>Lapse k\<close>: the time to live of the entry under \<open>k\<close> ends.
\<close>

datatype step =
    Call bool string "job option" int
  | Serve | Reject string | Receive
  | Explained nat match | ExplainFailed nat
  | Lapse string

fun act :: "step \<Rightarrow> ordered \<Rightarrow> ordered option" where
  "act (Call hasProfile profileKey rawJob baseScore) s =
     (let cacheKey = matchCacheKey profileKey rawJob;
          q = (if \<not> hasProfile then Done None ''unavailable''
               else if cacheKey = None then Done (Some (buildPendingMatch baseScore)) ''pending''
               else Start);
          c = \<lparr> c_hasProfile = hasProfile, c_key = cacheKey, c_baseScore = baseScore, c_pc = q \<rparr>
      in Some (s\<lparr> inner := (inner s)\<lparr> calls := calls (inner s) @ [c] \<rparr>,
                 outbox := (if hasProfile \<and> cacheKey \<noteq> None
                            then outbox s @ [Get (length (calls (inner s))) (the cacheKey)]
                            else outbox s) \<rparr>))"
| "act Serve s =
     (case outbox s of
        [] \<Rightarrow> None
      | c # rest \<Rightarrow>
          Some (s\<lparr> inner := fst (serve c (inner s)), outbox := rest,
                   inbox := inbox s @ [snd (serve c (inner s))] \<rparr>))"
| "act (Reject e) s =
     (case outbox s of
        [] \<Rightarrow> None
      | c # rest \<Rightarrow> Some (s\<lparr> outbox := rest, inbox := inbox s @ [refuse e c] \<rparr>))"
| "act Receive s =
     (case inbox s of
        [] \<Rightarrow> None
      | r # rest \<Rightarrow> Some (resume r (s\<lparr> inbox := rest \<rparr>)))"
| "act (Explained t detailed) s =
     (case taskAt (inner s) t of
        Some (k, Queued) \<Rightarrow>
          Some (s\<lparr> inner := (inner s)\<lparr> tasks := (tasks (inner s))[t := (k, Finishing)] \<rparr>,
                   outbox := outbox s @ [SetReady k detailed] \<rparr>)
      | _ \<Rightarrow> None)"
| "act (ExplainFailed t) s =
     (case taskAt (inner s) t of
        Some (k, Queued) \<Rightarrow>
          Some (s\<lparr> inner := (inner s)
                   \<lparr> tasks := take t (tasks (inner s)) @ drop (Suc t) (tasks (inner s)),
                     pendingMatchComputations := pendingMatchComputations (inner s) - {k} \<rparr> \<rparr>)
      | _ \<Rightarrow> None)"
| "act (Lapse k) s = Some (s\<lparr> inner := (inner s)\<lparr> cache := (cache (inner s))(k := None) \<rparr> \<rparr>)"

fun proceed :: "step list \<Rightarrow> ordered \<Rightarrow> ordered option" where
  "proceed [] s = Some s"
| "proceed (e # es) s = (case act e s of None \<Rightarrow> None | Some s' \<Rightarrow> proceed es s')"

text \<open>
  Commands and answers that concern the key \<open>k\<close>: the write of an explanation and the
  write of a placeholder; the answer of a read that found no entry, and an answer that
  tells of an entry (a read that found one, a placeholder stored).
\<close>

fun readyCmd :: "string \<Rightarrow> command \<Rightarrow> bool" where
  "readyCmd k (SetReady k' detailed) = (k' = k)"
| "readyCmd k c = False"

fun placeholderCmd :: "string \<Rightarrow> command \<Rightarrow> bool" where
  "placeholderCmd k (SetPlaceholder i k' b) = (k' = k)"
| "placeholderCmd k c = False"

fun absentReply :: "string \<Rightarrow> reply \<Rightarrow> bool" where
  "absentReply k (GotValue i k' None) = (k' = k)"
| "absentReply k r = False"

fun entryReply :: "string \<Rightarrow> reply \<Rightarrow> bool" where
  "entryReply k (GotValue i k' (Some cached)) = (k' = k)"
| "entryReply k (PlaceholderStored i k' b) = (k' = k)"
| "entryReply k r = False"

text \<open>
  Nothing is under way for \<open>k\<close>: no computation is in flight, no write of an explanation
  is on its way, and no answer that tells of an entry is on its way.
\<close>

definition idle :: "string \<Rightarrow> ordered \<Rightarrow> bool" where
  "idle k s =
     (k \<notin> set (inFlight (inner s)) \<and> \<not> list_ex (readyCmd k) (outbox s) \<and>
      \<not> list_ex (entryReply k) (inbox s))"

text \<open>Along the run \<open>es\<close> from \<open>s\<close>, an entry under \<open>k\<close> lapses only when nothing is under way for \<open>k\<close>.\<close>

fun lapsesIdle :: "string \<Rightarrow> step list \<Rightarrow> ordered \<Rightarrow> bool" where
  "lapsesIdle k [] s = True"
| "lapsesIdle k (e # es) s =
     ((case e of Lapse k' \<Rightarrow> k' = k \<longrightarrow> idle k s | _ \<Rightarrow> True) \<and>
      (case act e s of None \<Rightarrow> True | Some s' \<Rightarrow> lapsesIdle k es s'))"

text \<open>No element with \<open>Q\<close> comes after an element with \<open>P\<close>.\<close>

fun noneAfter :: "('a \<Rightarrow> bool) \<Rightarrow> ('a \<Rightarrow> bool) \<Rightarrow> 'a list \<Rightarrow> bool" where
  "noneAfter P Q [] = True"
| "noneAfter P Q (x # xs) = ((P x \<longrightarrow> \<not> list_ex Q xs) \<and> noneAfter P Q xs)"

text \<open>
  What holds of \<open>k\<close> in every state of a run in which entries lapse only when nothing is
  under way: without an entry nothing is under way; with a computation in flight, the
  write of an explanation on its way or a ready entry, no answer of a read that found no
  entry is on its way; no placeholder write follows the write of an explanation; with a
  ready entry no placeholder write is on its way.
\<close>

definition steady :: "string \<Rightarrow> ordered \<Rightarrow> bool" where
  "steady k s =
     ((cache (inner s) k = None \<longrightarrow> idle k s) \<and>
      (k \<in> set (inFlight (inner s)) \<or> list_ex (readyCmd k) (outbox s) \<or>
       statusAt (inner s) k = Some ''ready'' \<longrightarrow> \<not> list_ex (absentReply k) (inbox s)) \<and>
      noneAfter (readyCmd k) (placeholderCmd k) (outbox s) \<and>
      (statusAt (inner s) k = Some ''ready'' \<longrightarrow> \<not> list_ex (placeholderCmd k) (outbox s)) \<and>
      noneAfter (entryReply k) (absentReply k) (inbox s))"

section \<open>The job source (datasources/jsearch.js)\<close>

record criteria =
  query :: "string option"
  cr_location :: "string option"
  limit :: "int option"
  remoteOnly :: bool
  allowRemote :: bool
  preferredLocations :: "string list option"
  datePosted :: "string option"
  sortBy :: "string option"
  cr_order :: "string option"
  page :: "int option"

text \<open>
  What the provider answers to a request: the postings, already in the shape that
  \<open>searchJSearch\<close> maps them to, or a failure with its HTTP status if it has one.
\<close>

datatype response = Data "job list" | Failure "int option"

text \<open>
  The surroundings of the aggregator: the API key, the provider (its answer to the
  \<open>n\<close>-th request), the clock (the value of the \<open>n\<close>-th reading of \<open>Date.now()\<close>),
  and the parts that rest on data outside the repository: the geographic dataset behind
  \<open>toCountryCode\<close> and \<open>expandLocationPatterns\<close>, the parsing of dates, the similar roles
  that the language model or the textual fallback produce for a query, and the rating
  service, which can throw.
\<close>

record env =
  JSEARCH_API_KEY :: bool
  respond :: "nat \<Rightarrow> criteria \<Rightarrow> response"
  clock :: "nat \<Rightarrow> int"
  toCountryCode :: "string \<Rightarrow> string option"
  expandLocationPatterns :: "string \<Rightarrow> string list"
  parseTime :: "string \<Rightarrow> int"
  similarRolesFor :: "string \<Rightarrow> string list"
  attachRating :: "job \<Rightarrow> string + job"

text \<open>
  The state of the source: the time of the last rate-limit answer, how often the clock was
  read, how many requests went to the provider, and every call of \<open>searchJSearch\<close> so far.
\<close>

record source_state =
  lastRateLimitHit :: int
  clockReads :: nat
  requests :: nat
  searches :: "criteria list"

definition RATE_LIMIT_COOLDOWN_MS :: int where
  "RATE_LIMIT_COOLDOWN_MS = 60000"

definition isCoolingDown :: "env \<Rightarrow> source_state \<Rightarrow> bool \<times> source_state" where
  "isCoolingDown e st =
     (clock e (clockReads st) - lastRateLimitHit st < RATE_LIMIT_COOLDOWN_MS,
      st\<lparr> clockReads := Suc (clockReads st) \<rparr>)"

definition intOr :: "int option \<Rightarrow> int \<Rightarrow> int" where
  "intOr v d = (case v of None \<Rightarrow> d | Some n \<Rightarrow> if n = 0 then d else n)"

definition searchJSearch :: "env \<Rightarrow> criteria \<Rightarrow> source_state \<Rightarrow> job list \<times> source_state" where
  "searchJSearch e c st =
     (let st0 = st\<lparr> searches := searches st @ [c] \<rparr>
      in if \<not> JSEARCH_API_KEY e then ([], st0)
         else
           (let now = clock e (clockReads st0);
                st1 = st0\<lparr> clockReads := Suc (clockReads st0) \<rparr>
            in if now - lastRateLimitHit st1 < RATE_LIMIT_COOLDOWN_MS then ([], st1)
               else
                 (let cap = min (max (intOr (limit c) 20) 10) 60;
                      st2 = st1\<lparr> requests := Suc (requests st1) \<rparr>
                  in case respond e (requests st1) c of
                       Data jobs \<Rightarrow> (take (nat cap) jobs, st2)
                     | Failure status \<Rightarrow>
                         (if status = Some 429 \<or> status = Some 403
                          then ([], st2\<lparr> lastRateLimitHit := clock e (clockReads st2),
                                         clockReads := Suc (clockReads st2) \<rparr>)
                          else ([], st2)))))"

definition normalizeUserLocation :: "string option \<Rightarrow> string" where
  "normalizeUserLocation input =
     (if \<not> truthy input then []
      else
        (let trimmed = trim (the input);
             normalized = filter (\<lambda>c. c \<noteq> CHR ''.'') (toLowerCase trimmed)
         in if List.member
                 [''us'', ''usa'', ''united states'', ''united states of america'', ''america'']
                 normalized
            then ''United States''
            else if List.member
                 [''uk'', ''gb'', ''great britain'', ''england'', ''united kingdom''] normalized
            then ''United Kingdom''
            else trimmed))"

section \<open>The aggregator (services/jobAggregator.js)\<close>

definition DEFAULT_RESULT_LIMIT :: int where
  "DEFAULT_RESULT_LIMIT = 50"

definition MAX_RESULT_LIMIT :: int where
  "MAX_RESULT_LIMIT = 60"

definition matchesLocation :: "job \<Rightarrow> string \<Rightarrow> string \<Rightarrow> string option \<Rightarrow> bool" where
  "matchesLocation j normalizedLower originalLower code =
     (let jobLoc = toLowerCase (orStr (location j) []);
          jobParts = filter (\<lambda>part. part \<noteq> [])
                       (map trim (splitOn (\<lambda>c. c = CHR '','') jobLoc));
          jobCountry = toLowerCase (orStr (country j) []);
          jobCountryCode = (if truthy (countryCode j)
                            then Some (toLowerCase (the (countryCode j))) else None)
      in if originalLower = [] \<and> normalizedLower = [] then True
         else if str_includes jobLoc ''remote'' then True
         else if originalLower \<noteq> [] \<and> str_includes jobLoc originalLower then True
         else if normalizedLower \<noteq> [] \<and> str_includes jobLoc normalizedLower then True
         else if list_ex (\<lambda>part. originalLower \<noteq> [] \<and> str_includes originalLower part) jobParts
           then True
         else if list_ex (\<lambda>part. normalizedLower \<noteq> [] \<and> str_includes normalizedLower part)
                   jobParts
           then True
         else if jobCountry \<noteq> [] \<and> originalLower \<noteq> [] \<and>
                 (str_includes jobCountry originalLower \<or> str_includes originalLower jobCountry)
           then True
         else if jobCountry \<noteq> [] \<and> normalizedLower \<noteq> [] \<and>
                 (str_includes jobCountry normalizedLower \<or>
                  str_includes normalizedLower jobCountry)
           then True
         else if truthy code \<and> jobCountryCode \<noteq> None \<and> jobCountryCode = code then True
         else False)"

definition isRemoteJob :: "job \<Rightarrow> bool" where
  "isRemoteJob j =
     (let jobLoc = toLowerCase (orStr (location j) [])
      in remote j \<or> str_includes jobLoc ''remote'' \<or> str_includes jobLoc ''anywhere'')"

definition jobMatchesAnyLocation :: "env \<Rightarrow> job \<Rightarrow> string list \<Rightarrow> bool" where
  "jobMatchesAnyLocation e j locs =
     list_ex (\<lambda>l. l \<noteq> [] \<and>
                matchesLocation j (toLowerCase (normalizeUserLocation (Some l))) (toLowerCase l)
                  (toCountryCode e l)) locs"

text \<open>The function that both filters of \<open>aggregateJobs\<close> apply to a job.\<close>

definition passesFilter :: "env \<Rightarrow> bool \<Rightarrow> bool \<Rightarrow> string list \<Rightarrow> job \<Rightarrow> bool" where
  "passesFilter e wantsRemoteOnly allowsRemote locationCandidates j =
     (let isRemote = isRemoteJob j
      in if wantsRemoteOnly \<and> \<not> isRemote then False
         else if locationCandidates = [] then (if wantsRemoteOnly then isRemote else True)
         else if jobMatchesAnyLocation e j locationCandidates then True
         else if allowsRemote \<and> isRemote then True
         else False)"

fun addCandidates :: "string list \<Rightarrow> string list \<Rightarrow> string list" where
  "addCandidates acc [] = acc"
| "addCandidates acc (l # ls) =
     (if l = [] then addCandidates acc ls
      else if list_ex (\<lambda>existing. toLowerCase existing = toLowerCase l) acc
        then addCandidates acc ls
      else addCandidates (acc @ [l]) ls)"

text \<open>
  The loop over the alternate locations: \<open>cap\<close> is \<open>criteria.limit\<close>, \<open>filtered\<close> the
  jobs found so far.
\<close>

fun altLocationLoop ::
  "env \<Rightarrow> criteria \<Rightarrow> int \<Rightarrow> string list \<Rightarrow> job list \<Rightarrow> source_state
     \<Rightarrow> job list \<times> source_state" where
  "altLocationLoop e c cap [] filtered st = (filtered, st)"
| "altLocationLoop e c cap (altLoc # rest) filtered st =
     (if int (length filtered) \<ge> cap then (filtered, st)
      else
        (let altCriteria = c\<lparr> cr_location := Some altLoc,
                               limit := Some (min 5 (cap - int (length filtered))) \<rparr>;
             (altJSearch, st1) = searchJSearch e altCriteria st;
             existingIds = set (map jid filtered);
             newJobs = filter (\<lambda>j. jid j \<notin> existingIds) altJSearch
         in altLocationLoop e c cap rest (filtered @ newJobs) st1))"

text \<open>The loop over the similar roles.\<close>

fun similarRoleLoop ::
  "env \<Rightarrow> criteria \<Rightarrow> int \<Rightarrow> (job \<Rightarrow> bool) \<Rightarrow> string list \<Rightarrow> job list \<Rightarrow> source_state
     \<Rightarrow> job list \<times> source_state" where
  "similarRoleLoop e c cap keep [] filtered st = (filtered, st)"
| "similarRoleLoop e c cap keep (similarQuery # rest) filtered st =
     (if int (length filtered) \<ge> cap then (filtered, st)
      else
        (let fallbackCriteria = c\<lparr> query := Some similarQuery,
                                    limit := Some (min 5 (cap - int (length filtered))) \<rparr>;
             (fallbackJSearch, st1) = searchJSearch e fallbackCriteria st;
             fallbackFiltered = filter keep fallbackJSearch;
             existingIds = set (map jid filtered);
             newJobs = filter (\<lambda>j. jid j \<notin> existingIds) fallbackFiltered
         in similarRoleLoop e c cap keep rest (filtered @ newJobs) st1))"

fun countSources :: "(string \<times> nat) list \<Rightarrow> job list \<Rightarrow> (string \<times> nat) list" where
  "countSources acc [] = acc"
| "countSources acc (j # js) =
     (let sourceKey = orStr (source j) ''unknown''
      in countSources
           (case map_of acc sourceKey of
              None \<Rightarrow> acc @ [(sourceKey, 1)]
            | Some n \<Rightarrow> map (\<lambda>(k, v). if k = sourceKey then (k, Suc v) else (k, v)) acc)
           js)"

text \<open>\<open>Promise.all\<close> over the ratings: the first job whose rating throws makes all fail.\<close>

fun decorateAll :: "env \<Rightarrow> job list \<Rightarrow> string + job list" where
  "decorateAll e [] = Inr []"
| "decorateAll e (j # js) =
     (case (if \<not> truthy (company j) then Inr j else attachRating e j) of
        Inl err \<Rightarrow> Inl err
      | Inr j1 \<Rightarrow> (case decorateAll e js of Inl err \<Rightarrow> Inl err | Inr js1 \<Rightarrow> Inr (j1 # js1)))"

record meta =
  total :: nat
  m_returned :: nat
  agent :: criteria
  suggestions :: "string list"
  sourceCounts :: "(string \<times> nat) list"

record aggregate_result =
  results :: "job list"
  a_meta :: meta

definition postedTime :: "env \<Rightarrow> job \<Rightarrow> int" where
  "postedTime e j = (if truthy (postedAt j) then parseTime e (the (postedAt j)) else 0)"

text \<open>
  The criteria that \<open>aggregateJobs\<close> works with: the limit brought into 1..60, the date
  window, the sort key and the order filled in.
\<close>

definition appliedLimitOf :: "criteria \<Rightarrow> int" where
  "appliedLimitOf rawCriteria =
     max 1 (min (intOr (limit rawCriteria) DEFAULT_RESULT_LIMIT) MAX_RESULT_LIMIT)"

definition baseDateWindowOf :: "criteria \<Rightarrow> string" where
  "baseDateWindowOf rawCriteria = orStr (datePosted rawCriteria) ''week''"

definition finalCriteria :: "criteria \<Rightarrow> criteria" where
  "finalCriteria rawCriteria =
     rawCriteria\<lparr> limit := Some (appliedLimitOf rawCriteria),
                   datePosted := Some (baseDateWindowOf rawCriteria),
                   sortBy := Some (orStr (sortBy rawCriteria) ''date_posted''),
                   cr_order := Some (orStr (cr_order rawCriteria) ''desc'') \<rparr>"

text \<open>The first three steps of \<open>aggregateJobs\<close>: the base fetch, the relaxed window, pages 2 and 3.\<close>

definition fetchCombined ::
  "env \<Rightarrow> criteria \<Rightarrow> int \<Rightarrow> string \<Rightarrow> source_state
     \<Rightarrow> job list \<times> job list \<times> source_state" where
  "fetchCombined e c appliedLimit baseDateWindow st =
     (let (baseResults, st1) = searchJSearch e c st;
          (combined1, st2) =
            (if int (length baseResults) < min appliedLimit 10 \<and> baseDateWindow \<noteq> ''month''
             then (let (relaxedResults, sa) = searchJSearch e (c\<lparr> datePosted := Some ''month'' \<rparr>) st1
                   in (uniqueById (map Some (baseResults @ relaxedResults)), sa))
             else (baseResults, st1));
          (combined2, st3) =
            (if int (length combined1) < min appliedLimit 20
             then (let (cooling, sa) = isCoolingDown e st2
                   in if \<not> cooling
                      then (let (page2, sb) = searchJSearch e (c\<lparr> page := Some 2 \<rparr>) sa;
                                withPage2 = uniqueById (map Some (combined1 @ page2))
                            in if int (length withPage2) < min appliedLimit 30
                               then (let (page3, sc) = searchJSearch e (c\<lparr> page := Some 3 \<rparr>) sb
                                     in (uniqueById (map Some (withPage2 @ page3)), sc))
                               else (withPage2, sb))
                      else (combined1, sa))
             else (combined1, st2))
      in (baseResults, uniqueById (map Some combined2), st3))"

text \<open>
  The location filter with its retries on alternate locations: the jobs that remain, the
  suggestions, and the state of the source.
\<close>

definition locationStage ::
  "env \<Rightarrow> criteria \<Rightarrow> int \<Rightarrow> string list \<Rightarrow> bool \<Rightarrow> (job \<Rightarrow> bool) \<Rightarrow> bool \<Rightarrow> job list
     \<Rightarrow> source_state \<Rightarrow> job list \<times> string list \<times> source_state" where
  "locationStage e c appliedLimit locationCandidates wantsRemoteOnly keep jsearchAvailable
       combined st =
     (if locationCandidates \<noteq> [] \<or> wantsRemoteOnly
      then (let filtered0 = filter keep combined
            in if filtered0 = [] \<and> jsearchAvailable
               then (let expanded = (case locationCandidates of
                                       [] \<Rightarrow> []
                                     | primaryLocation # _ \<Rightarrow>
                                         expandLocationPatterns e primaryLocation);
                         (cooling, sa) = isCoolingDown e st
                     in if cooling then (filtered0, take 5 expanded, sa)
                        else (let (found, sb) =
                                    altLocationLoop e c appliedLimit (take 3 expanded)
                                      filtered0 sa
                              in (found, take 5 expanded, sb)))
               else (filtered0, [], st))
      else (combined, [], st))"

text \<open>The retries with similar roles when fewer than two jobs remain.\<close>

definition similarStage ::
  "env \<Rightarrow> criteria \<Rightarrow> int \<Rightarrow> (job \<Rightarrow> bool) \<Rightarrow> bool \<Rightarrow> string option \<Rightarrow> job list
     \<Rightarrow> source_state \<Rightarrow> job list \<times> source_state" where
  "similarStage e c appliedLimit keep jsearchAvailable rawQuery filtered1 st =
     (if length filtered1 < 2 \<and> truthy rawQuery
      then (if \<not> jsearchAvailable then (filtered1, st)
            else (let (cooling, sa) = isCoolingDown e st
                  in if cooling then (filtered1, sa)
                     else similarRoleLoop e c appliedLimit keep
                            (take 2 (similarRolesFor e (the rawQuery))) filtered1 sa))
      else (filtered1, st))"

text \<open>The end of \<open>aggregateJobs\<close>: deduplicate, sort, cut, rate, count.\<close>

definition finishAggregate ::
  "env \<Rightarrow> criteria \<Rightarrow> int \<Rightarrow> string list \<Rightarrow> job list \<Rightarrow> string + aggregate_result" where
  "finishAggregate e c appliedLimit suggested filtered2 =
     (let filtered = uniqueById (map Some filtered2);
          sorted = sort_key (\<lambda>j. - postedTime e j) filtered;
          limited = take (nat appliedLimit) sorted
      in case decorateAll e limited of
           Inl err \<Rightarrow> Inl err
         | Inr decorated \<Rightarrow>
             Inr \<lparr> results = decorated,
                   a_meta = \<lparr> total = length filtered,
                              m_returned = length decorated,
                              agent = c,
                              suggestions = suggested,
                              sourceCounts = countSources [] decorated \<rparr> \<rparr>)"

definition aggregateJobs ::
  "env \<Rightarrow> criteria \<Rightarrow> source_state \<Rightarrow> (string + aggregate_result) \<times> source_state" where
  "aggregateJobs e rawCriteria st =
     (let appliedLimit = appliedLimitOf rawCriteria;
          baseDateWindow = baseDateWindowOf rawCriteria;
          c = finalCriteria rawCriteria;
          (baseResults, combined, st3) = fetchCombined e c appliedLimit baseDateWindow st;
          jsearchAvailable = (length baseResults > 0);
          wantsRemoteOnly = remoteOnly c;
          allowsRemote = allowRemote c;
          preferred = (case preferredLocations c of
                         None \<Rightarrow> []
                       | Some ls \<Rightarrow> map trim (filter (\<lambda>l. trim l \<noteq> []) ls));
          locationCandidates =
            addCandidates (if truthy (cr_location rawCriteria)
                           then [the (cr_location rawCriteria)] else []) preferred;
          keep = passesFilter e wantsRemoteOnly allowsRemote locationCandidates;
          (filtered1, suggested, st4) =
            locationStage e c appliedLimit locationCandidates wantsRemoteOnly keep
              jsearchAvailable combined st3;
          (filtered2, st5) =
            similarStage e c appliedLimit keep jsearchAvailable (query rawCriteria)
              filtered1 st4
      in (finishAggregate e c appliedLimit suggested filtered2, st5))"

text \<open>
  The source answers every request with an empty list; and whether the source is cooling
  down at the \<open>k\<close>-th reading of the clock from a state on.
\<close>

definition alwaysEmpty :: "env \<Rightarrow> bool" where
  "alwaysEmpty e = (\<forall>n c. respond e n c = Data [])"

definition coolingAt :: "env \<Rightarrow> source_state \<Rightarrow> nat \<Rightarrow> bool" where
  "coolingAt e st k =
     (clock e (clockReads st + k) - lastRateLimitHit st < RATE_LIMIT_COOLDOWN_MS)"

section \<open>Concrete inputs\<close>

definition emptyJob :: job where
  "emptyJob =
     \<lparr> jid = None, job_id = None, externalId = None, url = None, apply_link = None,
       title = None, company = None, location = None, postedAt = None, description = None,
       remote = False, country = None, countryCode = None, source = None, summary = None,
       work_mode = None, normalized = None \<rparr>"

definition seniorHybridJob :: job where
  "seniorHybridJob =
     emptyJob\<lparr> jid := Some ''job-1'', title := Some ''Senior Backend Engineer'',
               company := Some ''Acme'', location := Some ''Berlin, Germany'',
               normalized := Some
                 \<lparr> n_title = Some ''Senior Backend Engineer'',
                   required_skills = Some [''Node.js'', ''AWS''],
                   nice_to_have = Some [''Docker''],
                   level = Some ''senior'',
                   n_work_mode = Some ''Hybrid'',
                   n_summary = Some ''Backend role in a small team'' \<rparr> \<rparr>"

definition untitledJob :: job where
  "untitledJob = emptyJob\<lparr> title := Some ''Engineer'' \<rparr>"

definition oneYearProfile :: profile where
  "oneYearProfile =
     \<lparr> skills = Some [''node.js'', ''React''], experience_years = Some 1, roles = None,
       domains = None, preferred_locations = Some [''Berlin''], interests = None,
       preferred_industries = None, preference_industries = None, target_companies = None,
       preference_target_companies = None, preference_work_modes = Some (SArr [''remote'']),
       preference_work_mode = None, preferred_work_mode = None, inferred_preferences = None \<rparr>"

definition detailedOptions :: options where
  "detailedOptions = \<lparr> o_rawJob = None, includeDetails = True, o_preferenceSignals = None \<rparr>"

definition plainOptions :: options where
  "plainOptions = \<lparr> o_rawJob = None, includeDetails = False, o_preferenceSignals = None \<rparr>"

text \<open>A profile with four years of experience and no preferences.\<close>

definition fourYearProfile :: profile where
  "fourYearProfile =
     \<lparr> skills = Some [''node.js'', ''React''], experience_years = Some 4, roles = None,
       domains = None, preferred_locations = None, interests = None,
       preferred_industries = None, preference_industries = None, target_companies = None,
       preference_target_companies = None, preference_work_modes = None,
       preference_work_mode = None, preferred_work_mode = None, inferred_preferences = None \<rparr>"

definition remoteSignals :: signals where
  "remoteSignals =
     \<lparr> workMode = Some ''remote'', workModes = [''remote''], locations = [],
       locationsOriginal = [], industries = [], industriesOriginal = [], targetCompanies = [],
       targetCompaniesOriginal = [], interestKeywords = [] \<rparr>"

text \<open>
  The first job of every id, in the order of the list: what deduplication by id means for
  jobs that all carry one.
\<close>

fun firstById :: "job list \<Rightarrow> job list" where
  "firstById [] = []"
| "firstById (x # xs) = x # firstById (filter (\<lambda>y. jid y \<noteq> jid x) xs)"

definition presentJobs :: "job option list \<Rightarrow> job list" where
  "presentJobs jobs = map the (filter (\<lambda>j. j \<noteq> None) jobs)"

text \<open>
  Four clients: one whose connection counts as open and whose commands are rejected, as
  when the socket closes with commands in flight; one that is not open and cannot reach
  the cache, so that \<open>connect\<close> never settles; one that is not open and whose \<open>connect\<close>
  is rejected; and one that answers with a value that is not JSON.
\<close>

definition brokenClient :: "string client" where
  "brokenClient =
     \<lparr> isOpen = True, connect = Returns (),
       get = (\<lambda>k. Throws ''Socket closed unexpectedly''),
       set_ex = (\<lambda>k v t. Throws ''Socket closed unexpectedly''),
       del = (\<lambda>k. Throws ''Socket closed unexpectedly''),
       parse = (\<lambda>raw. Inr (Some raw)),
       stringify = (\<lambda>v. Inr v) \<rparr>"

definition stalledClient :: "string client" where
  "stalledClient =
     \<lparr> isOpen = False, connect = Never,
       get = (\<lambda>k. Never),
       set_ex = (\<lambda>k v t. Never),
       del = (\<lambda>k. Never),
       parse = (\<lambda>raw. Inr (Some raw)),
       stringify = (\<lambda>v. Inr v) \<rparr>"

definition unreachableClient :: "string client" where
  "unreachableClient =
     \<lparr> isOpen = False, connect = Throws ''ECONNREFUSED'',
       get = (\<lambda>k. Throws ''The client is closed''),
       set_ex = (\<lambda>k v t. Throws ''The client is closed''),
       del = (\<lambda>k. Throws ''The client is closed''),
       parse = (\<lambda>raw. Inr (Some raw)),
       stringify = (\<lambda>v. Inr v) \<rparr>"

definition garbledClient :: "string client" where
  "garbledClient =
     \<lparr> isOpen = True, connect = Returns (),
       get = (\<lambda>k. Returns (Some ''{oops'')),
       set_ex = (\<lambda>k v t. Returns ()),
       del = (\<lambda>k. Returns ()),
       parse = (\<lambda>raw. Inl ''Unexpected token''),
       stringify = (\<lambda>v. Inr v) \<rparr>"

definition exampleKey :: string where
  "exampleKey = ''match:u42:job-1''"



text \<open>
  A run over the one connection, in two parts. In \<open>lateExplanation\<close> the placeholder of
  a first invocation lapses while its explanation is still being computed; a second
  invocation reads and finds no entry; before that answer arrives, the explanation is done
  and stored, and a third invocation reads. In \<open>placeholderAfterReady\<close> the answers
  arrive, the second invocation sends its placeholder and the cache stores it, and a
  fourth invocation reads.
\<close>

definition callExample :: step where
  "callExample = Call True ''u42'' (Some seniorHybridJob) 70"

definition lateExplanation :: "step list" where
  "lateExplanation =
     [callExample, Serve, Receive, Serve, Receive,
      Lapse exampleKey,
      callExample, Serve,
      Explained 0 \<lparr> m_status = None, m_score = 82 \<rparr>, Serve,
      callExample, Serve]"

definition placeholderAfterReady :: "step list" where
  "placeholderAfterReady =
     [Receive, Receive, Receive, Serve, callExample, Serve, Receive, Receive]"

text \<open>
  A run in which the entry lapses after the computation is over: an invocation, its
  explanation, the lapse, and the same again.
\<close>

definition explainedTwice :: "step list" where
  "explainedTwice =
     [callExample, Serve, Receive, Serve, Receive,
      Explained 0 \<lparr> m_status = None, m_score = 82 \<rparr>, Serve, Receive,
      Lapse exampleKey,
      callExample, Serve, Receive, Serve, Receive,
      Explained 0 \<lparr> m_status = None, m_score = 84 \<rparr>, Serve]"

text \<open>Two more invocations side by side, after the second explanation is stored.\<close>

definition laterCalls :: "step list" where
  "laterCalls = [Receive, callExample, callExample, Serve, Serve, Receive, Receive]"

definition quietEnv :: env where
  "quietEnv =
     \<lparr> JSEARCH_API_KEY = True,
       respond = (\<lambda>n c. Data []),
       clock = (\<lambda>n. 1000000),
       toCountryCode = (\<lambda>l. None),
       expandLocationPatterns = (\<lambda>l. [''Remote'']),
       parseTime = (\<lambda>d. 0),
       similarRolesFor = (\<lambda>q. [q, q]),
       attachRating = (\<lambda>j. Inr j) \<rparr>"

definition freshSource :: source_state where
  "freshSource = \<lparr> lastRateLimitHit = 0, clockReads = 0, requests = 0, searches = [] \<rparr>"

definition coolingSource :: source_state where
  "coolingSource = freshSource\<lparr> lastRateLimitHit := 990000 \<rparr>"

definition backendCriteria :: criteria where
  "backendCriteria =
     \<lparr> query = Some ''Backend Developer'', cr_location = Some ''Berlin'', limit = None,
       remoteOnly = False, allowRemote = False, preferredLocations = None,
       datePosted = None, sortBy = None, cr_order = None, page = None \<rparr>"

definition backendFinal :: criteria where
  "backendFinal =
     backendCriteria\<lparr> limit := Some 50, datePosted := Some ''week'',
                      sortBy := Some ''date_posted'', cr_order := Some ''desc'' \<rparr>"

definition excludingEvaluation :: evaluation where
  "excludingEvaluation =
     \<lparr> adjustment = - 18, exclude = True,
       e_matches = \<lparr> m_workMode = False, m_company = False, m_industry = False,
                     m_interests = False, m_location = False \<rparr>,
       e_mismatches = \<lparr> mm_workMode = True, mm_location = False, mm_industry = False \<rparr>,
       e_workMode = Some ''onsite'' \<rparr>"


section \<open>Properties of the preference evaluator and the base score\<close>

lemma evaluate_exclude_False: "exclude (evaluateJobAgainstPreferences nj rj sg) = False"
  by (cases sg) (simp_all add: evaluateJobAgainstPreferences_def Let_def split: prod.splits)

lemma computeBaseScore_value:
  "computeBaseScore p j opts =
     (let sigs = (case o_preferenceSignals opts of
                    Some provided \<Rightarrow> provided | None \<Rightarrow> buildPreferenceSignals p);
          ev = evaluateJobAgainstPreferences (Some j) (o_rawJob opts) (Some sigs);
          finalScore = min 100 (max 0
            (Math_round (fst (scoreBeforePreferences p j) + of_int (adjustment ev))))
      in if includeDetails opts
         then Payload \<lparr> score = finalScore, excluded = False,
                        p_details = (snd (scoreBeforePreferences p j))
                          \<lparr> preferenceAdjustment :=
                              of_int (Math_round (of_int (adjustment ev) * 10)) / 10 \<rparr>,
                        preferenceSignals = Some sigs,
                        inferredWorkMode = inferWorkMode (Some j) (o_rawJob opts) \<rparr>
         else Plain finalScore)"
  by (simp add: computeBaseScore_def applyEvaluation_def evaluate_exclude_False Let_def
      split: prod.splits)

text \<open>
  Claim C7. For every job, raw job and signals (also absent ones) the evaluator returns
  \<open>exclude = false\<close>. So \<open>computeBaseScore\<close> never takes its exclusion branch: for every
  profile, job and options, with and without \<open>includeDetails\<close>, its result is the one that
  the statements after the exclusion branch build: the running score plus the adjustment,
  rounded and clamped, as a plain number or in an object with \<open>excluded = false\<close>.
\<close>

theorem C7_exclude_never_set:
  "exclude (evaluateJobAgainstPreferences nj rj sg) = False \<and>
   (\<forall>q. computeBaseScore p j opts = Payload q \<longrightarrow> excluded q = False) \<and>
   (includeDetails opts \<longrightarrow> (\<exists>q. computeBaseScore p j opts = Payload q \<and> excluded q = False)) \<and>
   computeBaseScore p j opts =
     (let sigs = (case o_preferenceSignals opts of
                    Some provided \<Rightarrow> provided | None \<Rightarrow> buildPreferenceSignals p);
          ev = evaluateJobAgainstPreferences (Some j) (o_rawJob opts) (Some sigs);
          finalScore = min 100 (max 0
            (Math_round (fst (scoreBeforePreferences p j) + of_int (adjustment ev))))
      in if includeDetails opts
         then Payload \<lparr> score = finalScore, excluded = False,
                        p_details = (snd (scoreBeforePreferences p j))
                          \<lparr> preferenceAdjustment :=
                              of_int (Math_round (of_int (adjustment ev) * 10)) / 10 \<rparr>,
                        preferenceSignals = Some sigs,
                        inferredWorkMode = inferWorkMode (Some j) (o_rawJob opts) \<rparr>
         else Plain finalScore)"
proof -
  have a: "\<forall>q. computeBaseScore p j opts = Payload q \<longrightarrow> excluded q = False"
    by (simp add: computeBaseScore_value Let_def)
  have b: "includeDetails opts \<longrightarrow>
      (\<exists>q. computeBaseScore p j opts = Payload q \<and> excluded q = False)"
    by (simp add: computeBaseScore_value Let_def)
  from a b evaluate_exclude_False [of nj rj sg] computeBaseScore_value [of p j opts]
  show ?thesis by blast
qed


lemma applyEvaluation_score:
  "0 \<le> scoreOf (applyEvaluation ev s d w sg wm) \<and> scoreOf (applyEvaluation ev s d w sg wm) \<le> 100"
  by (simp add: applyEvaluation_def scoreOf_def Let_def)




text \<open>
  Claim C1. For every profile, job and options, \<open>computeBaseScore\<close> returns a number when
  \<open>includeDetails\<close> is off and an object when it is on, and the score of either lies
  between 0 and 100. The same bounds hold for the last part of the function on every
  result that the evaluator could hand to it; and whenever that result signals exclusion,
  the function returns the plain number 0, or with \<open>includeDetails\<close> the object with
  score 0 and \<open>excluded = true\<close>.
\<close>

theorem C1_score_bounds:
  "0 \<le> scoreOf (computeBaseScore p j opts) \<and> scoreOf (computeBaseScore p j opts) \<le> 100 \<and>
   (includeDetails opts \<longrightarrow> (\<exists>q. computeBaseScore p j opts = Payload q)) \<and>
   (\<not> includeDetails opts \<longrightarrow> (\<exists>n. computeBaseScore p j opts = Plain n)) \<and>
   0 \<le> scoreOf (applyEvaluation ev s d w sg wm) \<and>
   scoreOf (applyEvaluation ev s d w sg wm) \<le> 100 \<and>
   (exclude ev \<longrightarrow>
      applyEvaluation ev s d w sg wm =
        (if w then Payload \<lparr> score = 0, excluded = True,
                             p_details = d\<lparr> preferenceAdjustment := of_int (adjustment ev) \<rparr>,
                             preferenceSignals = None, inferredWorkMode = None \<rparr>
         else Plain 0))"
proof -
  have a: "0 \<le> scoreOf (computeBaseScore p j opts) \<and> scoreOf (computeBaseScore p j opts) \<le> 100"
    by (simp add: computeBaseScore_def Let_def applyEvaluation_score split: prod.splits)
  have b: "includeDetails opts \<longrightarrow> (\<exists>q. computeBaseScore p j opts = Payload q)"
    by (simp add: computeBaseScore_def applyEvaluation_def Let_def split: prod.splits)
  have c: "\<not> includeDetails opts \<longrightarrow> (\<exists>n. computeBaseScore p j opts = Plain n)"
    by (simp add: computeBaseScore_def applyEvaluation_def Let_def split: prod.splits)
  have e: "exclude ev \<longrightarrow>
      applyEvaluation ev s d w sg wm =
        (if w then Payload \<lparr> score = 0, excluded = True,
                             p_details = d\<lparr> preferenceAdjustment := of_int (adjustment ev) \<rparr>,
                             preferenceSignals = None, inferredWorkMode = None \<rparr>
         else Plain 0)"
    by (simp add: applyEvaluation_def)
  from a b c e applyEvaluation_score [of ev s d w sg wm] show ?thesis by blast
qed

text \<open>
  For a profile with one year of experience and a senior hybrid job in Berlin; and for an
  evaluator result that signals exclusion.
\<close>

theorem C1_score_bounds_witness:
  "0 \<le> scoreOf (computeBaseScore oneYearProfile seniorHybridJob detailedOptions) \<and>
   scoreOf (computeBaseScore oneYearProfile seniorHybridJob detailedOptions) \<le> 100 \<and>
   (\<exists>q. computeBaseScore oneYearProfile seniorHybridJob detailedOptions = Payload q) \<and>
   exclude excludingEvaluation \<and>
   scoreOf (applyEvaluation excludingEvaluation 75
      (snd (scoreBeforePreferences oneYearProfile seniorHybridJob)) True remoteSignals None) = 0 \<and>
   applyEvaluation excludingEvaluation 75
      (snd (scoreBeforePreferences oneYearProfile seniorHybridJob)) False remoteSignals None
     = Plain 0"
  using C1_score_bounds [of oneYearProfile seniorHybridJob detailedOptions excludingEvaluation 75
      "snd (scoreBeforePreferences oneYearProfile seniorHybridJob)" True remoteSignals None]
    C1_score_bounds [of oneYearProfile seniorHybridJob detailedOptions excludingEvaluation 75
      "snd (scoreBeforePreferences oneYearProfile seniorHybridJob)" False remoteSignals None]
  by (simp add: detailedOptions_def excludingEvaluation_def scoreOf_def)

text \<open>
  For a senior hybrid job: with details for a profile with one year of experience, and
  without details for a profile with four years, where the result is the plain number 95.
\<close>

theorem C7_exclude_never_set_witness:
  "exclude (evaluateJobAgainstPreferences (Some seniorHybridJob) None (Some remoteSignals)) = False \<and>
   includeDetails detailedOptions \<and>
   (\<exists>q. computeBaseScore oneYearProfile seniorHybridJob detailedOptions = Payload q \<and>
        excluded q = False) \<and>
   \<not> includeDetails plainOptions \<and>
   computeBaseScore fourYearProfile seniorHybridJob plainOptions = Plain 95"
proof -
  have v: "fst (scoreBeforePreferences fourYearProfile seniorHybridJob) = 95"
    "adjustment (evaluateJobAgainstPreferences (Some seniorHybridJob) None
       (Some (buildPreferenceSignals fourYearProfile))) = 0"
    by code_simp+
  have r: "Math_round 95 = 95"
    by code_simp
  have i: "includeDetails detailedOptions" "\<not> includeDetails plainOptions"
    by (simp_all add: detailedOptions_def plainOptions_def)
  note detailed = C7_exclude_never_set [of "Some seniorHybridJob" None "Some remoteSignals"
      oneYearProfile seniorHybridJob detailedOptions]
  note plain = C7_exclude_never_set [of "Some seniorHybridJob" None "Some remoteSignals"
      fourYearProfile seniorHybridJob plainOptions]
  from detailed have a: "exclude (evaluateJobAgainstPreferences (Some seniorHybridJob) None
      (Some remoteSignals)) = False"
    by (rule conjunct1)
  from detailed i(1)
  have b: "\<exists>q. computeBaseScore oneYearProfile seniorHybridJob detailedOptions = Payload q \<and>
      excluded q = False"
    by blast
  from plain [THEN conjunct2, THEN conjunct2, THEN conjunct2]
  have c: "computeBaseScore fourYearProfile seniorHybridJob plainOptions = Plain 95"
    by (simp add: plainOptions_def v r)
  from a b c i show ?thesis by blast
qed









section \<open>Work mode preferences\<close>

lemma evaluate_Some:
  "evaluateJobAgainstPreferences nj rj (Some sg) =
     \<lparr> adjustment =
         fst (workModeBlock (workMode sg) (inferWorkMode nj rj)) +
         fst (locationBlock (locations sg) (workMode sg)
                (toLowerCase (orStr (orElse (field nj location) (field rj location)) []))
                (inferWorkMode nj rj)) +
         fst (companyBlock (targetCompanies sg)
                (toLowerCase (orStr (orElse (field nj company) (field rj company)) []))) +
         fst (industryBlock (industries sg) (jobText nj rj)) +
         fst (interestBlock (fst (snd (industryBlock (industries sg) (jobText nj rj))))
                (interestKeywords sg) (jobText nj rj)),
       exclude = False,
       e_matches =
         \<lparr> m_workMode = fst (snd (workModeBlock (workMode sg) (inferWorkMode nj rj))),
           m_company = snd (companyBlock (targetCompanies sg)
                (toLowerCase (orStr (orElse (field nj company) (field rj company)) []))),
           m_industry = fst (snd (industryBlock (industries sg) (jobText nj rj))),
           m_interests = snd (interestBlock
                (fst (snd (industryBlock (industries sg) (jobText nj rj))))
                (interestKeywords sg) (jobText nj rj)),
           m_location = fst (snd (locationBlock (locations sg) (workMode sg)
                (toLowerCase (orStr (orElse (field nj location) (field rj location)) []))
                (inferWorkMode nj rj))) \<rparr>,
       e_mismatches =
         \<lparr> mm_workMode = snd (snd (workModeBlock (workMode sg) (inferWorkMode nj rj))),
           mm_location = snd (snd (locationBlock (locations sg) (workMode sg)
                (toLowerCase (orStr (orElse (field nj location) (field rj location)) []))
                (inferWorkMode nj rj))),
           mm_industry = snd (snd (industryBlock (industries sg) (jobText nj rj))) \<rparr>,
       e_workMode = inferWorkMode nj rj \<rparr>"
  by (simp add: evaluateJobAgainstPreferences_def Let_def split: prod.splits)

lemma hybrid_matches:
  "pref = Some ''remote'' \<or> pref = Some ''onsite'' \<or> pref = Some ''on-site'' \<Longrightarrow>
   workModeMatchesPreference pref (Some ''hybrid'')"
  by (auto simp: workModeMatchesPreference_def)

lemma hybrid_block:
  "pref = Some ''remote'' \<or> pref = Some ''onsite'' \<or> pref = Some ''on-site'' \<Longrightarrow>
   workModeBlock pref (Some ''hybrid'') = (12, True, False)"
  by (auto simp: workModeBlock_def workModeMatchesPreference_def truthy_def)

text \<open>
  Claim C10. \<open>workModeMatchesPreference\<close> accepts the mode \<open>hybrid\<close> for the preferences
  \<open>remote\<close>, \<open>onsite\<close> and \<open>on-site\<close>; it accepts every mode when the preference is missing
  or is none of the four it knows, and every preference when the mode is missing. So for
  signals with one of these three preferences and a job whose inferred work mode is
  \<open>hybrid\<close>, the work-mode block of \<open>evaluateJobAgainstPreferences\<close> adds 12 and sets the
  match flag, not the mismatch flag: the adjustment is 12 plus what the other four blocks
  add, and no penalty of 18 or 24 is part of it.
\<close>

theorem C10_hybrid_satisfies:
  "(pref = Some ''remote'' \<or> pref = Some ''onsite'' \<or> pref = Some ''on-site'' \<longrightarrow>
      workModeMatchesPreference pref (Some ''hybrid'')) \<and>
   (\<not> truthy pref \<or> \<not> truthy mode \<longrightarrow> workModeMatchesPreference pref mode) \<and>
   (pref \<noteq> Some ''remote'' \<and> pref \<noteq> Some ''hybrid'' \<and> pref \<noteq> Some ''onsite'' \<and>
    pref \<noteq> Some ''on-site'' \<longrightarrow> workModeMatchesPreference pref mode) \<and>
   ((workMode sg = Some ''remote'' \<or> workMode sg = Some ''onsite'' \<or>
     workMode sg = Some ''on-site'') \<and> inferWorkMode nj rj = Some ''hybrid'' \<longrightarrow>
      workModeBlock (workMode sg) (inferWorkMode nj rj) = (12, True, False) \<and>
      m_workMode (e_matches (evaluateJobAgainstPreferences nj rj (Some sg))) \<and>
      \<not> mm_workMode (e_mismatches (evaluateJobAgainstPreferences nj rj (Some sg))) \<and>
      adjustment (evaluateJobAgainstPreferences nj rj (Some sg)) =
        12 +
        fst (locationBlock (locations sg) (workMode sg)
               (toLowerCase (orStr (orElse (field nj location) (field rj location)) []))
               (inferWorkMode nj rj)) +
        fst (companyBlock (targetCompanies sg)
               (toLowerCase (orStr (orElse (field nj company) (field rj company)) []))) +
        fst (industryBlock (industries sg) (jobText nj rj)) +
        fst (interestBlock (fst (snd (industryBlock (industries sg) (jobText nj rj))))
               (interestKeywords sg) (jobText nj rj)))"
proof -
  have a: "pref = Some ''remote'' \<or> pref = Some ''onsite'' \<or> pref = Some ''on-site'' \<longrightarrow>
      workModeMatchesPreference pref (Some ''hybrid'')"
    using hybrid_matches by blast
  have b: "\<not> truthy pref \<or> \<not> truthy mode \<longrightarrow> workModeMatchesPreference pref mode"
    by (auto simp: workModeMatchesPreference_def)
  have c: "pref \<noteq> Some ''remote'' \<and> pref \<noteq> Some ''hybrid'' \<and> pref \<noteq> Some ''onsite'' \<and>
    pref \<noteq> Some ''on-site'' \<longrightarrow> workModeMatchesPreference pref mode"
    by (auto simp: workModeMatchesPreference_def)
  have d: "(workMode sg = Some ''remote'' \<or> workMode sg = Some ''onsite'' \<or>
     workMode sg = Some ''on-site'') \<and> inferWorkMode nj rj = Some ''hybrid'' \<longrightarrow>
      workModeBlock (workMode sg) (inferWorkMode nj rj) = (12, True, False)"
    using hybrid_block [of "workMode sg"] by auto
  from a b c d show ?thesis
    by (simp only: evaluate_Some) auto
qed

theorem C10_hybrid_satisfies_witness:
  "workMode remoteSignals = Some ''remote'' \<and>
   inferWorkMode (Some seniorHybridJob) None = Some ''hybrid'' \<and>
   workModeMatchesPreference (Some ''remote'') (Some ''hybrid'') \<and>
   workModeMatchesPreference None (Some ''onsite'') \<and>
   workModeMatchesPreference (Some ''flexible'') (Some ''onsite'') \<and>
   m_workMode (e_matches
     (evaluateJobAgainstPreferences (Some seniorHybridJob) None (Some remoteSignals))) \<and>
   adjustment (evaluateJobAgainstPreferences (Some seniorHybridJob) None (Some remoteSignals))
     = 12"
proof -
  have h: "inferWorkMode (Some seniorHybridJob) None = Some ''hybrid''"
    by code_simp
  have t: "\<not> truthy None"
    by (simp add: truthy_def)
  have r: "workMode remoteSignals = Some ''remote''" "locations remoteSignals = []"
    "targetCompanies remoteSignals = []" "industries remoteSignals = []"
    "interestKeywords remoteSignals = []"
    by (simp_all add: remoteSignals_def)
  from h t r C10_hybrid_satisfies [of "Some ''remote''" "Some ''hybrid''" remoteSignals
      "Some seniorHybridJob" None]
    C10_hybrid_satisfies [of None "Some ''onsite''" remoteSignals "Some seniorHybridJob" None]
    C10_hybrid_satisfies [of "Some ''flexible''" "Some ''onsite''" remoteSignals
      "Some seniorHybridJob" None]
  show ?thesis
    by (simp add: locationBlock_def companyBlock_def industryBlock_def interestBlock_def)
qed


section \<open>Job identity\<close>

lemma orStr_truthy: "truthy a \<Longrightarrow> orStr a d = the a"
  by (cases a) (auto simp: truthy_def orStr_def)

lemma orStr_nonempty: "d \<noteq> [] \<Longrightarrow> orStr a d \<noteq> []"
  by (cases a) (auto simp: orStr_def)

lemma getJobCacheKey_truthy: "truthy (getJobCacheKey (Some x))"
  by (simp add: getJobCacheKey_def truthy_def orStr_nonempty)

lemma getJobCacheKey_id: "truthy (jid x) \<Longrightarrow> getJobCacheKey (Some x) = jid x"
  by (cases "jid x") (auto simp: getJobCacheKey_def orElse_def truthy_def orStr_def)

lemma dedupKey_id: "truthy (jid x) \<Longrightarrow> dedupKey x n = the (jid x)"
  by (simp add: dedupKey_def orStr_truthy)

text \<open>
  A job without id: \<open>uniqueById\<close> gives it one key at position 0 and another at position
  1, and neither is the key that \<open>getJobCacheKey\<close> derives for it.
\<close>

theorem C2_identity_counterexample:
  "\<not> truthy (jid untitledJob) \<and>
   dedupKey untitledJob 0 = ''Engineer-unknown-na-0'' \<and>
   dedupKey untitledJob 1 = ''Engineer-unknown-na-1'' \<and>
   getJobCacheKey (Some untitledJob) = Some ''Engineer|unknown|unknown|'' \<and>
   Some (dedupKey untitledJob 0) \<noteq> getJobCacheKey (Some untitledJob)"
  by (simp add: untitledJob_def emptyJob_def dedupKey_def getJobCacheKey_def orStr_def
      orElse_def truthy_def showNat.simps)

text \<open>
  Claim C2, amended. The key of a job is a function of the job alone. The key under which
  the normalized job is cached and the job part of the key under which the match is
  cached are both \<open>getJobCacheKey\<close> of the raw job, which is never empty. For a job with a
  non-empty id, that key is the id, and the key that \<open>uniqueById\<close> uses is the same id at
  every position. (For a job without id the two fallbacks are built differently, and
  nothing is claimed.)
\<close>

theorem C2_identity:
  "(\<exists>k. k \<noteq> [] \<and> getJobCacheKey (Some x) = Some k \<and>
        normalizationRedisKey (Some x) = Some (''job:normalized:'' @ k) \<and>
        matchCacheKey profileKey (Some x) = Some (''match:'' @ profileKey @ '':'' @ k)) \<and>
   (truthy (jid x) \<longrightarrow>
      getJobCacheKey (Some x) = jid x \<and> Some (dedupKey x n) = getJobCacheKey (Some x))"
proof -
  obtain k where k: "getJobCacheKey (Some x) = Some k"
    by (simp add: getJobCacheKey_def)
  with getJobCacheKey_truthy [of x] have ne: "k \<noteq> []"
    by (simp add: truthy_def)
  from k ne have "normalizationRedisKey (Some x) = Some (''job:normalized:'' @ k)"
    by (simp add: normalizationRedisKey_def truthy_def getNormalizedJobRedisKey_def)
  moreover from k ne
  have "matchCacheKey profileKey (Some x) = Some (''match:'' @ profileKey @ '':'' @ k)"
    by (simp add: matchCacheKey_def truthy_def getMatchRedisKey_def)
  moreover have "truthy (jid x) \<longrightarrow>
      getJobCacheKey (Some x) = jid x \<and> Some (dedupKey x n) = getJobCacheKey (Some x)"
    by (cases "jid x") (auto simp: getJobCacheKey_id dedupKey_id truthy_def)
  ultimately show ?thesis using k ne by blast
qed

theorem C2_identity_witness:
  "truthy (jid seniorHybridJob) \<and>
   getJobCacheKey (Some seniorHybridJob) = Some ''job-1'' \<and>
   dedupKey seniorHybridJob 7 = ''job-1'' \<and>
   normalizationRedisKey (Some seniorHybridJob) = Some ''job:normalized:job-1'' \<and>
   matchCacheKey ''u42'' (Some seniorHybridJob) = Some ''match:u42:job-1''"
proof -
  have t: "truthy (jid seniorHybridJob)" "jid seniorHybridJob = Some ''job-1''"
    by (simp_all add: seniorHybridJob_def emptyJob_def truthy_def)
  from t C2_identity [of seniorHybridJob "''u42''" 7] show ?thesis
    by auto
qed

section \<open>Deduplication\<close>

lemma keysAt_append:
  "keysAt (xs @ ys) =
     keysAt xs @ map (\<lambda>(x, n). dedupKey x n) (zip ys [length xs..<length xs + length ys])"
proof -
  have "[0..<length xs + length ys] = [0..<length xs] @ [length xs..<length xs + length ys]"
    by (rule upt_add_eq_append) simp
  then show ?thesis
    by (simp add: keysAt_def)
qed

lemma keysAt_snoc: "keysAt (xs @ [x]) = keysAt xs @ [dedupKey x (length xs)]"
  by (simp add: keysAt_def)

lemma keysAt_nth_mem: "i < length xs \<Longrightarrow> dedupKey (xs ! i) i \<in> set (keysAt xs)"
proof -
  assume i: "i < length xs"
  then have "keysAt xs ! i = dedupKey (xs ! i) i"
    by (simp add: keysAt_def)
  moreover from i have "keysAt xs ! i \<in> set (keysAt xs)"
    by (intro nth_mem) (simp add: keysAt_def)
  ultimately show ?thesis by simp
qed

lemma uniqueByIdLoop_inv:
  "seen = set (keysAt result) \<Longrightarrow> distinct (keysAt result) \<Longrightarrow>
   \<exists>ys. uniqueByIdLoop jobs seen result = result @ ys \<and>
        subseq ys (presentJobs jobs) \<and>
        distinct (keysAt (result @ ys)) \<and>
        (\<forall>x. Some x \<in> set jobs \<longrightarrow>
           (\<exists>n \<le> length (result @ ys). dedupKey x n \<in> set (keysAt (result @ ys))))"
proof (induction jobs seen result rule: uniqueByIdLoop.induct)
  case (1 seen result)
  then show ?case by (simp add: presentJobs_def)
next
  case (2 jobs seen result)
  then show ?case by (simp add: presentJobs_def)
next
  case (3 x jobs seen result)
  let ?key = "dedupKey x (length result)"
  show ?case
  proof (cases "?key \<in> seen")
    case True
    from 3(1) [OF refl True 3(3) 3(4)] obtain ys where
      ys: "uniqueByIdLoop jobs seen result = result @ ys"
        "subseq ys (presentJobs jobs)" "distinct (keysAt (result @ ys))"
        "\<forall>y. Some y \<in> set jobs \<longrightarrow>
           (\<exists>n \<le> length (result @ ys). dedupKey y n \<in> set (keysAt (result @ ys)))"
      by blast
    have run: "uniqueByIdLoop (Some x # jobs) seen result = result @ ys"
      using True ys(1) by simp
    have sub: "subseq ys (presentJobs (Some x # jobs))"
      using ys(2) by (auto simp: presentJobs_def)
    have "set (keysAt result) \<subseteq> set (keysAt (result @ ys))"
      by (simp add: keysAt_append)
    with True 3(3) have "?key \<in> set (keysAt (result @ ys))" by blast
    then have covx: "\<exists>n \<le> length (result @ ys). dedupKey x n \<in> set (keysAt (result @ ys))"
      by (intro exI [of _ "length result"]) simp
    have cov: "\<forall>y. Some y \<in> set (Some x # jobs) \<longrightarrow>
           (\<exists>n \<le> length (result @ ys). dedupKey y n \<in> set (keysAt (result @ ys)))"
      using covx ys(4) by (metis option.inject set_ConsD)
    from run sub ys(3) cov show ?thesis by blast
  next
    case False
    have inv1: "insert ?key seen = set (keysAt (result @ [x]))"
      using 3(3) by (simp add: keysAt_snoc)
    have inv2: "distinct (keysAt (result @ [x]))"
      using 3(3) 3(4) False by (simp add: keysAt_snoc)
    from 3(2) [OF refl False inv1 inv2] obtain ys where
      ys0: "uniqueByIdLoop jobs (insert ?key seen) (result @ [x]) = (result @ [x]) @ ys"
        "subseq ys (presentJobs jobs)" "distinct (keysAt ((result @ [x]) @ ys))"
        "\<forall>y. Some y \<in> set jobs \<longrightarrow>
           (\<exists>n \<le> length ((result @ [x]) @ ys).
              dedupKey y n \<in> set (keysAt ((result @ [x]) @ ys)))"
      by blast
    have re: "(result @ [x]) @ ys = result @ (x # ys)" by simp
    have run: "uniqueByIdLoop (Some x # jobs) seen result = result @ (x # ys)"
      using False ys0(1) by simp
    have sub: "subseq (x # ys) (presentJobs (Some x # jobs))"
      using ys0(2) by (simp add: presentJobs_def)
    have dis: "distinct (keysAt (result @ (x # ys)))"
      using ys0(3) unfolding re .
    have "?key \<in> set (keysAt (result @ (x # ys)))"
      using keysAt_nth_mem [of "length result" "result @ (x # ys)"] by simp
    then have covx: "\<exists>n \<le> length (result @ (x # ys)).
         dedupKey x n \<in> set (keysAt (result @ (x # ys)))"
      by (intro exI [of _ "length result"]) simp
    have covr: "\<forall>y. Some y \<in> set jobs \<longrightarrow>
           (\<exists>n \<le> length (result @ (x # ys)). dedupKey y n \<in> set (keysAt (result @ (x # ys))))"
      using ys0(4) unfolding re .
    have cov: "\<forall>y. Some y \<in> set (Some x # jobs) \<longrightarrow>
           (\<exists>n \<le> length (result @ (x # ys)). dedupKey y n \<in> set (keysAt (result @ (x # ys))))"
      using covx covr by (metis option.inject set_ConsD)
    from run sub dis cov show ?thesis by blast
  qed
qed

lemma uniqueByIdLoop_ids:
  "\<forall>x. Some x \<in> set jobs \<longrightarrow> truthy (jid x) \<Longrightarrow>
   uniqueByIdLoop jobs seen result =
     result @ firstById (filter (\<lambda>x. the (jid x) \<notin> seen) (presentJobs jobs))"
proof (induction jobs seen result rule: uniqueByIdLoop.induct)
  case (1 seen result)
  then show ?case by (simp add: presentJobs_def)
next
  case (2 jobs seen result)
  then show ?case by (simp add: presentJobs_def)
next
  case (3 x jobs seen result)
  have tx: "truthy (jid x)" using 3(3) by simp
  then have key: "dedupKey x (length result) = the (jid x)"
    by (rule dedupKey_id)
  have rest: "\<forall>y. Some y \<in> set jobs \<longrightarrow> truthy (jid y)" using 3(3) by simp
  have tr: "\<forall>y \<in> set (presentJobs jobs). truthy (jid y)"
    using rest by (auto simp: presentJobs_def)
  show ?case
  proof (cases "the (jid x) \<in> seen")
    case True
    with 3(1) [OF refl _ rest] key show ?thesis
      by (simp add: presentJobs_def)
  next
    case False
    have eq: "filter (\<lambda>y. the (jid y) \<notin> insert (the (jid x)) seen) (presentJobs jobs) =
              filter (\<lambda>y. jid y \<noteq> jid x) (filter (\<lambda>y. the (jid y) \<notin> seen) (presentJobs jobs))"
    proof -
      have "\<And>y. y \<in> set (presentJobs jobs) \<Longrightarrow>
              (the (jid y) \<noteq> the (jid x)) = (jid y \<noteq> jid x)"
        using tr tx by (auto simp: truthy_def split: option.splits)
      then show ?thesis
        by (auto intro!: filter_cong)
    qed
    from False 3(2) [OF refl _ rest] key eq show ?thesis
      by (simp add: presentJobs_def)
  qed
qed

lemma uniqueByIdLoop_append:
  "seen = set (keysAt result) \<Longrightarrow>
   uniqueByIdLoop (xs @ ys) seen result =
     uniqueByIdLoop ys (set (keysAt (uniqueByIdLoop xs seen result)))
       (uniqueByIdLoop xs seen result)"
proof (induction xs seen result rule: uniqueByIdLoop.induct)
  case (1 seen result)
  then show ?case by simp
next
  case (2 jobs seen result)
  then show ?case by simp
next
  case (3 x jobs seen result)
  let ?key = "dedupKey x (length result)"
  show ?case
  proof (cases "?key \<in> seen")
    case True
    with 3(1) [OF refl True 3(3)] show ?thesis by simp
  next
    case False
    have inv: "insert ?key seen = set (keysAt (result @ [x]))"
      using 3(3) by (simp add: keysAt_snoc)
    from False 3(2) [OF refl False inv] show ?thesis by (simp add: Let_def)
  qed
qed

lemma uniqueById_append:
  "uniqueById (xs @ ys) =
     uniqueByIdLoop ys (set (keysAt (uniqueById xs))) (uniqueById xs)"
  using uniqueByIdLoop_append [of "{}" "[]" xs ys]
  by (simp add: uniqueById_def keysAt_def)

lemma uniqueById_distinct: "distinct (keysAt (uniqueById jobs))"
proof -
  have "{} = set (keysAt [])" "distinct (keysAt [])"
    by (simp_all add: keysAt_def)
  from uniqueByIdLoop_inv [OF this, of jobs] show ?thesis
    by (auto simp: uniqueById_def)
qed

lemma uniqueById_prefix: "prefix (uniqueById pre) (uniqueById (pre @ post))"
proof -
  from uniqueByIdLoop_inv [OF refl uniqueById_distinct, of post pre]
  obtain ys where "uniqueByIdLoop post (set (keysAt (uniqueById pre))) (uniqueById pre) =
      uniqueById pre @ ys"
    by blast
  then show ?thesis
    by (simp add: uniqueById_append)
qed

text \<open>
  Claim C6. For every list of jobs (entries may be \<open>null\<close>), the keys of the jobs that
  \<open>uniqueById\<close> returns, each taken at the job's position in the result, are pairwise
  different; the result is a subsequence of the input, so it keeps the order of the
  input; and every job of the input has its identity among the keys of the result. The
  first occurrence is the one kept, with and without ids: the result for a list extended
  by one job is the result for the list, followed by that job exactly when its key is
  not yet among the keys of the result; so the result for a list begins with the result
  for each of its initial parts, and a job whose key is already there can be struck from
  the input without changing the result, whatever follows it. When all jobs carry an id,
  the result is the first job of every id, in the order of the input.
\<close>

theorem C6_uniqueById:
  "distinct (keysAt (uniqueById jobs)) \<and>
   subseq (uniqueById jobs) (presentJobs jobs) \<and>
   (\<forall>x. Some x \<in> set jobs \<longrightarrow>
      (\<exists>n \<le> length (uniqueById jobs). dedupKey x n \<in> set (keysAt (uniqueById jobs)))) \<and>
   ((\<forall>x. Some x \<in> set jobs \<longrightarrow> truthy (jid x)) \<longrightarrow>
      uniqueById jobs = firstById (presentJobs jobs)) \<and>
   uniqueById [] = [] \<and>
   uniqueById (jobs @ [None]) = uniqueById jobs \<and>
   uniqueById (jobs @ [Some x]) =
     (if dedupKey x (length (uniqueById jobs)) \<in> set (keysAt (uniqueById jobs))
      then uniqueById jobs else uniqueById jobs @ [x]) \<and>
   prefix (uniqueById jobs) (uniqueById (jobs @ later)) \<and>
   (dedupKey x (length (uniqueById jobs)) \<in> set (keysAt (uniqueById jobs)) \<longrightarrow>
      uniqueById (jobs @ Some x # later) = uniqueById (jobs @ later))"
proof -
  have "{} = set (keysAt [])" "distinct (keysAt [])"
    by (simp_all add: keysAt_def)
  from uniqueByIdLoop_inv [OF this, of jobs]
  have a: "distinct (keysAt (uniqueById jobs)) \<and>
   subseq (uniqueById jobs) (presentJobs jobs) \<and>
   (\<forall>x. Some x \<in> set jobs \<longrightarrow>
      (\<exists>n \<le> length (uniqueById jobs). dedupKey x n \<in> set (keysAt (uniqueById jobs))))"
    by (auto simp: uniqueById_def)
  have b: "(\<forall>x. Some x \<in> set jobs \<longrightarrow> truthy (jid x)) \<longrightarrow>
      uniqueById jobs = firstById (presentJobs jobs)"
    using uniqueByIdLoop_ids [of jobs "{}" "[]"] by (simp add: uniqueById_def)
  have c: "uniqueById [] = []"
    by (simp add: uniqueById_def)
  have d: "uniqueById (jobs @ [None]) = uniqueById jobs"
    by (simp add: uniqueById_append)
  have e: "uniqueById (jobs @ [Some x]) =
     (if dedupKey x (length (uniqueById jobs)) \<in> set (keysAt (uniqueById jobs))
      then uniqueById jobs else uniqueById jobs @ [x])"
    by (simp add: uniqueById_append)
  have f: "dedupKey x (length (uniqueById jobs)) \<in> set (keysAt (uniqueById jobs)) \<longrightarrow>
      uniqueById (jobs @ Some x # later) = uniqueById (jobs @ later)"
    by (simp add: uniqueById_append [of jobs "Some x # later"] uniqueById_append [of jobs later])
  from a b c d e f uniqueById_prefix [of jobs later] show ?thesis by blast
qed

text \<open>
  Two lists. In the first all jobs carry an id. In the second a job without id stands
  between two jobs with the same id: the first of the two is kept.
\<close>

theorem C6_uniqueById_witness:
  "uniqueById [Some seniorHybridJob, None, Some (seniorHybridJob\<lparr> title := Some ''Copy'' \<rparr>),
               Some (seniorHybridJob\<lparr> jid := Some ''job-2'' \<rparr>), Some seniorHybridJob]
     = [seniorHybridJob, seniorHybridJob\<lparr> jid := Some ''job-2'' \<rparr>] \<and>
   keysAt [seniorHybridJob, seniorHybridJob\<lparr> jid := Some ''job-2'' \<rparr>] = [''job-1'', ''job-2''] \<and>
   uniqueById [Some seniorHybridJob, Some untitledJob] = [seniorHybridJob, untitledJob] \<and>
   keysAt [seniorHybridJob, untitledJob] = [''job-1'', ''Engineer-unknown-na-1''] \<and>
   uniqueById [Some seniorHybridJob, Some untitledJob,
               Some (seniorHybridJob\<lparr> title := Some ''Copy'' \<rparr>)]
     = [seniorHybridJob, untitledJob] \<and>
   uniqueById [Some seniorHybridJob, Some untitledJob,
               Some (seniorHybridJob\<lparr> title := Some ''Copy'' \<rparr>),
               Some (seniorHybridJob\<lparr> jid := Some ''job-2'' \<rparr>)]
     = [seniorHybridJob, untitledJob, seniorHybridJob\<lparr> jid := Some ''job-2'' \<rparr>]"
proof -
  let ?in = "[Some seniorHybridJob, None, Some (seniorHybridJob\<lparr> title := Some ''Copy'' \<rparr>),
               Some (seniorHybridJob\<lparr> jid := Some ''job-2'' \<rparr>), Some seniorHybridJob]"
  let ?pre = "[Some seniorHybridJob, Some untitledJob]"
  let ?copy = "seniorHybridJob\<lparr> title := Some ''Copy'' \<rparr>"
  let ?two = "seniorHybridJob\<lparr> jid := Some ''job-2'' \<rparr>"
  have ids: "\<forall>x. Some x \<in> set ?in \<longrightarrow> truthy (jid x)"
    by (auto simp: seniorHybridJob_def emptyJob_def truthy_def)
  have k: "keysAt [seniorHybridJob, seniorHybridJob\<lparr> jid := Some ''job-2'' \<rparr>]
             = [''job-1'', ''job-2'']"
    by code_simp
  have f: "firstById (presentJobs ?in) = [seniorHybridJob, seniorHybridJob\<lparr> jid := Some ''job-2'' \<rparr>]"
    by code_simp
  from ids C6_uniqueById [of ?in] have "uniqueById ?in = firstById (presentJobs ?in)"
    by blast
  with f have a: "uniqueById ?in = [seniorHybridJob, seniorHybridJob\<lparr> jid := Some ''job-2'' \<rparr>]"
    by simp
  have p: "uniqueById ?pre = [seniorHybridJob, untitledJob]"
    by code_simp
  have kp: "keysAt [seniorHybridJob, untitledJob] = [''job-1'', ''Engineer-unknown-na-1'']"
    by code_simp
  have dk: "dedupKey ?copy (length [seniorHybridJob, untitledJob]) = ''job-1''"
    by code_simp
  have v: "uniqueById (?pre @ [Some ?two]) = [seniorHybridJob, untitledJob, ?two]"
    by code_simp
  note t = C6_uniqueById [of ?pre ?copy "[Some ?two]"]
  from t have "uniqueById (?pre @ [Some ?copy]) =
     (if dedupKey ?copy (length (uniqueById ?pre)) \<in> set (keysAt (uniqueById ?pre))
      then uniqueById ?pre else uniqueById ?pre @ [?copy])"
    by blast
  with p kp dk have b: "uniqueById (?pre @ [Some ?copy]) = [seniorHybridJob, untitledJob]"
    by simp
  from t have "dedupKey ?copy (length (uniqueById ?pre)) \<in> set (keysAt (uniqueById ?pre)) \<longrightarrow>
      uniqueById (?pre @ Some ?copy # [Some ?two]) = uniqueById (?pre @ [Some ?two])"
    by blast
  with p kp dk v
  have c: "uniqueById (?pre @ Some ?copy # [Some ?two]) = [seniorHybridJob, untitledJob, ?two]"
    by simp
  from a k p kp b c show ?thesis by simp
qed


section \<open>Cache operations\<close>

text \<open>
  Where the three functions do fail soft: with an empty key, and when no connection is
  open and \<open>connect\<close> is rejected; \<open>getJson\<close> also for a missing or empty stored value and
  for one that does not parse.
\<close>

lemma cache_soft_cases:
  "(\<not> truthy key \<or> (\<not> isOpen c \<and> (\<exists>err. connect c = Throws err)) \<longrightarrow>
      getJson c key = Returns None \<and> setJson c key v ttl = Returns False \<and>
      deleteKey c key = Returns False) \<and>
   (truthy key \<and> ensureConnection c = Returns True \<and> get c (the key) = Returns raw \<and>
    (\<not> truthy raw \<or> (\<exists>err. parse c (the raw) = Inl err)) \<longrightarrow> getJson c key = Returns None)"
  by (auto simp: getJson_def setJson_def deleteKey_def ensureConnection_def)

text \<open>
  What leaves the three functions otherwise: exactly the exception of the client's own
  command (or of \<open>JSON.stringify\<close>) on a connection that counts as established; and they
  never settle exactly when \<open>connect\<close> or the command never settles.
\<close>

lemma cache_throws:
  "(getJson c key = Throws err \<longleftrightarrow>
      truthy key \<and> ensureConnection c = Returns True \<and> get c (the key) = Throws err) \<and>
   (setJson c key v ttl = Throws err \<longleftrightarrow>
      truthy key \<and> ensureConnection c = Returns True \<and>
      (stringify c v = Inl err \<or>
       (\<exists>payload. stringify c v = Inr payload \<and>
          set_ex c (the key) payload (if ttl \<noteq> None \<and> the ttl > 0 then ttl else None)
            = Throws err))) \<and>
   (deleteKey c key = Throws err \<longleftrightarrow>
      truthy key \<and> ensureConnection c = Returns True \<and> del c (the key) = Throws err)"
  by (auto simp: getJson_def setJson_def deleteKey_def ensureConnection_def
      split: outcome.splits sum.splits if_splits)

lemma cache_never:
  "(getJson c key = Never \<longleftrightarrow>
      truthy key \<and> (ensureConnection c = Never \<or>
        ensureConnection c = Returns True \<and> get c (the key) = Never)) \<and>
   (deleteKey c key = Never \<longleftrightarrow>
      truthy key \<and> (ensureConnection c = Never \<or>
        ensureConnection c = Returns True \<and> del c (the key) = Never))"
  by (auto simp: getJson_def deleteKey_def ensureConnection_def
      split: outcome.splits sum.splits if_splits)

text \<open>
  Claim C9. The claim does not hold of the code. With a client whose connection counts as
  open and whose command is rejected, \<open>getJson\<close>, \<open>setJson\<close> and \<open>deleteKey\<close> throw that
  exception instead of returning \<open>null\<close> or \<open>false\<close>. With a client that is not open and
  cannot reach the cache, so that \<open>connect\<close> never settles, the three functions never
  return. They return \<open>null\<close> and \<open>false\<close> when \<open>connect\<close> is rejected, and for an empty
  key.
\<close>

theorem C9_cache_calls_not_soft:
  "getJson brokenClient (Some ''match:u42:job-1'') = Throws ''Socket closed unexpectedly'' \<and>
   setJson brokenClient (Some ''match:u42:job-1'') ''{}'' (Some 900)
     = Throws ''Socket closed unexpectedly'' \<and>
   deleteKey brokenClient (Some ''match:u42:job-1'') = Throws ''Socket closed unexpectedly'' \<and>
   getJson stalledClient (Some ''match:u42:job-1'') = Never \<and>
   setJson stalledClient (Some ''match:u42:job-1'') ''{}'' (Some 900) = Never \<and>
   deleteKey stalledClient (Some ''match:u42:job-1'') = Never \<and>
   getJson unreachableClient (Some ''match:u42:job-1'') = Returns None \<and>
   setJson unreachableClient (Some ''match:u42:job-1'') ''{}'' (Some 900) = Returns False \<and>
   deleteKey unreachableClient (Some ''match:u42:job-1'') = Returns False \<and>
   getJson garbledClient (Some ''match:u42:job-1'') = Returns None \<and>
   getJson brokenClient None = Returns None"
  by (simp add: getJson_def setJson_def deleteKey_def brokenClient_def stalledClient_def
      unreachableClient_def garbledClient_def ensureConnection_def truthy_def)


section \<open>Match orchestration: one computation per key\<close>


lemma setPc_fields [simp]:
  "cache (setPc i q s) = cache s"
  "pendingMatchComputations (setPc i q s) = pendingMatchComputations s"
  "tasks (setPc i q s) = tasks s"
  "scheduleLog (setPc i q s) = scheduleLog s"
  "calls (setPc i q s) = (calls s)[i := (calls s ! i)\<lparr> c_pc := q \<rparr>]"
  by (simp_all add: setPc_def)

lemma scheduleUnlessPending_fields [simp]:
  "cache (scheduleUnlessPending k s) = cache s"
  "calls (scheduleUnlessPending k s) = calls s"
  "pendingMatchComputations (scheduleUnlessPending k s) = insert k (pendingMatchComputations s)"
  "tasks (scheduleUnlessPending k s) =
     (if k \<in> pendingMatchComputations s then tasks s else tasks s @ [(k, Queued)])"
  "scheduleLog (scheduleUnlessPending k s) =
     (if k \<in> pendingMatchComputations s then scheduleLog s else scheduleLog s @ [k])"
  by (auto simp: scheduleUnlessPending_def scheduleMatchExplanation_def)

lemma map_fst_update:
  "t < length xs \<Longrightarrow> fst (xs ! t) = k \<Longrightarrow> map fst (xs[t := (k, p)]) = map fst xs"
  by (simp add: map_update list_update_same_conv)












lemma isPendingMatch_placeholder [simp]: "isPendingMatch (buildPendingMatch b)"
  by (simp add: isPendingMatch_def buildPendingMatch_def orStr_def)


















section \<open>Match orchestration over one connection: ready entries\<close>

lemma noneAfter_snoc:
  "noneAfter P Q (xs @ [x]) = (noneAfter P Q xs \<and> (Q x \<longrightarrow> \<not> list_ex P xs))"
  by (induction xs) auto

lemma status_placeholder [simp]: "orStr (m_status (buildPendingMatch b)) ''ready'' = ''pending''"
  by (simp add: buildPendingMatch_def orStr_def truthy_def)

lemma status_explained [simp]: "orStr (Some ''ready'') ''ready'' = ''ready''"
  by (simp add: orStr_def truthy_def)

lemma finishTask_fields [simp]:
  "cache (finishTask k s) = cache s"
  "tasks (finishTask k s) = remove1 (k, Finishing) (tasks s)"
  by (simp_all add: finishTask_def)

lemma refuse_plain [simp]: "\<not> absentReply k (refuse e c)" "\<not> entryReply k (refuse e c)"
  by (cases c; simp)+

lemma absentReply_GotValue [simp]: "absentReply k (GotValue i k' v) = (k' = k \<and> v = None)"
  by (cases v) auto

lemma entryReply_GotValue [simp]: "entryReply k (GotValue i k' v) = (k' = k \<and> v \<noteq> None)"
  by (cases v) auto

lemma inFlight_schedule:
  "set (inFlight (scheduleUnlessPending k' s)) \<subseteq> insert k' (set (inFlight s))"
  by (auto simp: inFlight_def)

lemma act_cases
  [consumes 1, case_names Same Asked Answered Written Explanation Refused Hit Miss Stored
     Ended Sent Lapsed]:
  assumes a: "act e s = Some s'"
  obtains
    (Same) "cache (inner s') = cache (inner s)"
      "set (inFlight (inner s')) \<subseteq> set (inFlight (inner s))"
      "outbox s' = outbox s" "inbox s' = inbox s"
  | (Asked) i k' where "cache (inner s') = cache (inner s)"
      "set (inFlight (inner s')) \<subseteq> set (inFlight (inner s))"
      "outbox s' = outbox s @ [Get i k']" "inbox s' = inbox s"
  | (Answered) i k' rest where "cache (inner s') = cache (inner s)"
      "set (inFlight (inner s')) \<subseteq> set (inFlight (inner s))"
      "outbox s = Get i k' # rest" "outbox s' = rest"
      "inbox s' = inbox s @ [GotValue i k' (cache (inner s) k')]"
  | (Written) i k' b rest where "e = Serve"
      "cache (inner s') = (cache (inner s))(k' \<mapsto> buildPendingMatch b)"
      "set (inFlight (inner s')) \<subseteq> set (inFlight (inner s))"
      "outbox s = SetPlaceholder i k' b # rest" "outbox s' = rest"
      "inbox s' = inbox s @ [PlaceholderStored i k' b]"
  | (Explanation) k' detailed rest where
      "cache (inner s') = (cache (inner s))(k' \<mapsto> detailed\<lparr> m_status := Some ''ready'' \<rparr>)"
      "set (inFlight (inner s')) \<subseteq> set (inFlight (inner s))"
      "outbox s = SetReady k' detailed # rest" "outbox s' = rest"
      "inbox s' = inbox s @ [ReadyStored k']"
  | (Refused) c rest err where "cache (inner s') = cache (inner s)"
      "set (inFlight (inner s')) \<subseteq> set (inFlight (inner s))"
      "outbox s = c # rest" "outbox s' = rest" "inbox s' = inbox s @ [refuse err c]"
  | (Hit) i k' cached rest where "cache (inner s') = cache (inner s)"
      "set (inFlight (inner s')) \<subseteq> insert k' (set (inFlight (inner s)))"
      "outbox s' = outbox s" "inbox s = GotValue i k' (Some cached) # rest" "inbox s' = rest"
  | (Miss) i k' b rest where "cache (inner s') = cache (inner s)"
      "set (inFlight (inner s')) \<subseteq> set (inFlight (inner s))"
      "outbox s' = outbox s @ [SetPlaceholder i k' b]"
      "inbox s = GotValue i k' None # rest" "inbox s' = rest"
  | (Stored) i k' b rest where "cache (inner s') = cache (inner s)"
      "set (inFlight (inner s')) \<subseteq> insert k' (set (inFlight (inner s)))"
      "outbox s' = outbox s" "inbox s = PlaceholderStored i k' b # rest" "inbox s' = rest"
  | (Ended) r rest where "cache (inner s') = cache (inner s)"
      "set (inFlight (inner s')) \<subseteq> set (inFlight (inner s))"
      "outbox s' = outbox s" "inbox s = r # rest" "inbox s' = rest"
  | (Sent) k' detailed where "cache (inner s') = cache (inner s)"
      "set (inFlight (inner s')) \<subseteq> set (inFlight (inner s))"
      "k' \<in> set (inFlight (inner s))"
      "outbox s' = outbox s @ [SetReady k' detailed]" "inbox s' = inbox s"
  | (Lapsed) k' where "e = Lapse k'" "cache (inner s') = (cache (inner s))(k' := None)"
      "set (inFlight (inner s')) \<subseteq> set (inFlight (inner s))"
      "outbox s' = outbox s" "inbox s' = inbox s"
proof (cases e)
  case (Call hasProfile profileKey rawJob baseScore)
  show ?thesis
  proof (cases "hasProfile \<and> matchCacheKey profileKey rawJob \<noteq> None")
    case True
    with a Call show ?thesis
      by (intro Asked [of "length (calls (inner s))" "the (matchCacheKey profileKey rawJob)"])
        (auto simp: Let_def inFlight_def)
  next
    case False
    with a Call show ?thesis
      by (intro Same) (auto simp: Let_def inFlight_def)
  qed
next
  case Serve
  with a obtain c rest where o: "outbox s = c # rest"
    and s': "s' = s\<lparr> inner := fst (serve c (inner s)), outbox := rest,
                     inbox := inbox s @ [snd (serve c (inner s))] \<rparr>"
    by (auto split: list.splits)
  show ?thesis
  proof (cases c)
    case (Get i k')
    with o s' show ?thesis
      by (intro Answered [of i k' rest]) (simp_all add: inFlight_def)
  next
    case (SetPlaceholder i k' b)
    with o s' Serve show ?thesis
      by (intro Written [of k' b i rest]) (simp_all add: inFlight_def)
  next
    case (SetReady k' detailed)
    with o s' show ?thesis
      by (intro Explanation [of k' detailed rest]) (simp_all add: inFlight_def)
  qed
next
  case (Reject err)
  with a obtain c rest where o: "outbox s = c # rest"
    and s': "s' = s\<lparr> outbox := rest, inbox := inbox s @ [refuse err c] \<rparr>"
    by (auto split: list.splits)
  then show ?thesis
    by (intro Refused [of c rest err]) simp_all
next
  case Receive
  with a obtain r rest where i: "inbox s = r # rest"
    and s': "s' = resume r (s\<lparr> inbox := rest \<rparr>)"
    by (auto split: list.splits)
  show ?thesis
  proof (cases r)
    case (GotValue j k' v)
    show ?thesis
    proof (cases v)
      case None
      with GotValue i s' show ?thesis
        by (intro Miss [of j k' "c_baseScore (calls (inner s) ! j)" rest])
          (simp_all add: inFlight_def)
    next
      case (Some cached)
      with GotValue i s' show ?thesis
        by (intro Hit [of k' j cached rest])
          (auto simp: inFlight_def Let_def split: if_splits)
    qed
  next
    case (GetFailed j err)
    with i s' show ?thesis
      by (intro Ended [of r rest]) (simp_all add: inFlight_def)
  next
    case (PlaceholderStored j k' b)
    with i s' show ?thesis
      by (intro Stored [of k' j b rest]) (auto simp: inFlight_def split: if_splits)
  next
    case (PlaceholderFailed j err)
    with i s' show ?thesis
      by (intro Ended [of r rest]) (simp_all add: inFlight_def)
  next
    case (ReadyStored k')
    have "set (remove1 (k', Finishing) (tasks (inner s))) \<subseteq> set (tasks (inner s))"
      by (rule set_remove1_subset)
    with ReadyStored i s' show ?thesis
      by (intro Ended [of r rest]) (auto simp: inFlight_def)
  next
    case (ReadyFailed k')
    have "set (remove1 (k', Finishing) (tasks (inner s))) \<subseteq> set (tasks (inner s))"
      by (rule set_remove1_subset)
    with ReadyFailed i s' show ?thesis
      by (intro Ended [of r rest]) (auto simp: inFlight_def)
  qed
next
  case (Explained t detailed)
  with a obtain k' where t: "taskAt (inner s) t = Some (k', Queued)"
    and s': "s' = s\<lparr> inner := (inner s)\<lparr> tasks := (tasks (inner s))[t := (k', Finishing)] \<rparr>,
                     outbox := outbox s @ [SetReady k' detailed] \<rparr>"
    by (auto split: option.splits phase.splits)
  from t have tl: "t < length (tasks (inner s))" and tk: "tasks (inner s) ! t = (k', Queued)"
    by (auto simp: taskAt_def split: if_splits)
  from tl tk have m: "map fst ((tasks (inner s))[t := (k', Finishing)]) = map fst (tasks (inner s))"
    by (intro map_fst_update) simp_all
  from tl have "tasks (inner s) ! t \<in> set (tasks (inner s))"
    by (rule nth_mem)
  with tk have "k' \<in> set (inFlight (inner s))"
    by (auto simp: inFlight_def intro!: image_eqI [of _ _ "(k', Queued)"])
  with s' m show ?thesis
    by (intro Sent [of k' detailed]) (simp_all add: inFlight_def)
next
  case (ExplainFailed t)
  with a obtain k' where t: "taskAt (inner s) t = Some (k', Queued)"
    and s': "s' = s\<lparr> inner := (inner s)
                   \<lparr> tasks := take t (tasks (inner s)) @ drop (Suc t) (tasks (inner s)),
                     pendingMatchComputations := pendingMatchComputations (inner s) - {k'} \<rparr> \<rparr>"
    by (auto split: option.splits phase.splits)
  have "set (take t (tasks (inner s)) @ drop (Suc t) (tasks (inner s))) \<subseteq> set (tasks (inner s))"
    by (auto dest: in_set_takeD in_set_dropD)
  with s' show ?thesis
    by (intro Same) (auto simp: inFlight_def)
next
  case (Lapse k')
  with a show ?thesis
    by (intro Lapsed [of k']) (auto simp: inFlight_def)
qed

lemma steadyI:
  "(cache (inner s) k = None \<Longrightarrow> idle k s) \<Longrightarrow>
   (k \<in> set (inFlight (inner s)) \<or> list_ex (readyCmd k) (outbox s) \<or>
    statusAt (inner s) k = Some ''ready'' \<Longrightarrow> \<not> list_ex (absentReply k) (inbox s)) \<Longrightarrow>
   noneAfter (readyCmd k) (placeholderCmd k) (outbox s) \<Longrightarrow>
   (statusAt (inner s) k = Some ''ready'' \<Longrightarrow> \<not> list_ex (placeholderCmd k) (outbox s)) \<Longrightarrow>
   noneAfter (entryReply k) (absentReply k) (inbox s) \<Longrightarrow> steady k s"
  unfolding steady_def by blast

lemma statusAt_None [simp]: "cache s k = None \<Longrightarrow> statusAt s k = None"
  by (simp add: statusAt_def)

lemma act_steady:
  assumes a: "act e s = Some s'" and st: "steady k s" and l: "e = Lapse k \<longrightarrow> idle k s"
  shows "steady k s'"
proof -
  from st have D: "cache (inner s) k = None \<Longrightarrow> idle k s"
    and A: "k \<in> set (inFlight (inner s)) \<or> list_ex (readyCmd k) (outbox s) \<or>
       statusAt (inner s) k = Some ''ready'' \<Longrightarrow> \<not> list_ex (absentReply k) (inbox s)"
    and B: "noneAfter (readyCmd k) (placeholderCmd k) (outbox s)"
    and C: "statusAt (inner s) k = Some ''ready'' \<Longrightarrow> \<not> list_ex (placeholderCmd k) (outbox s)"
    and I: "noneAfter (entryReply k) (absentReply k) (inbox s)"
    unfolding steady_def by blast+
  from a show ?thesis
  proof (cases rule: act_cases)
    case Same
    with D A B C I show ?thesis
      by (intro steadyI) (auto simp: idle_def statusAt_def)
  next
    case (Asked i k')
    with D A B C I show ?thesis
      by (intro steadyI) (auto simp: idle_def statusAt_def noneAfter_snoc)
  next
    case (Answered i k' rest)
    with D A B C I show ?thesis
      by (intro steadyI) (auto simp: idle_def statusAt_def noneAfter_snoc split: option.splits)
  next
    case (Written i k' b rest)
    with D A B C I show ?thesis
      by (intro steadyI) (auto simp: idle_def statusAt_def noneAfter_snoc split: if_splits)
  next
    case (Explanation k' detailed rest)
    with D A B C I show ?thesis
      by (intro steadyI) (auto simp: idle_def statusAt_def noneAfter_snoc split: if_splits)
  next
    case (Refused c rest err)
    with D A B C I show ?thesis
      by (intro steadyI) (auto simp: idle_def statusAt_def noneAfter_snoc)
  next
    case (Hit i k' cached rest)
    with D A B C I show ?thesis
      by (intro steadyI) (auto simp: idle_def statusAt_def)
  next
    case (Miss i k' b rest)
    with D A B C I show ?thesis
      by (intro steadyI) (auto simp: idle_def statusAt_def noneAfter_snoc)
  next
    case (Stored i k' b rest)
    with D A B C I show ?thesis
      by (intro steadyI) (auto simp: idle_def statusAt_def)
  next
    case (Ended r rest)
    with D A B C I show ?thesis
      by (intro steadyI) (auto simp: idle_def statusAt_def)
  next
    case (Sent k' detailed)
    with D A B C I show ?thesis
      by (intro steadyI) (auto simp: idle_def statusAt_def noneAfter_snoc)
  next
    case (Lapsed k')
    with D A B C I l show ?thesis
      by (intro steadyI) (auto simp: idle_def statusAt_def split: if_splits)
  qed
qed

lemma act_ready:
  assumes a: "act e s = Some s'" and r: "statusAt (inner s) k = Some ''ready''"
    and n: "statusAt (inner s') k \<noteq> Some ''ready''"
  shows "e = Lapse k \<or>
         (e = Serve \<and> (\<exists>i b rest. outbox s = SetPlaceholder i k b # rest))"
  using a
proof (cases rule: act_cases)
  case (Written i k' b rest)
  with r n show ?thesis
    by (auto simp: statusAt_def split: if_splits)
next
  case (Explanation k' detailed rest)
  with r n show ?thesis
    by (auto simp: statusAt_def split: if_splits)
next
  case (Lapsed k')
  with r n show ?thesis
    by (auto simp: statusAt_def split: if_splits)
qed (use r n in \<open>simp_all add: statusAt_def\<close>)


lemma started_steady: "steady k (started cache0)"
  by (simp add: steady_def idle_def started_def initial_def inFlight_def)

lemma lapsesIdle_plain: "Lapse k \<notin> set evs \<Longrightarrow> lapsesIdle k evs s"
  by (induction evs arbitrary: s) (auto split: option.splits step.splits)

lemma proceed_steady:
  "proceed evs s = Some s' \<Longrightarrow> steady k s \<Longrightarrow> lapsesIdle k evs s \<Longrightarrow> steady k s'"
proof (induction evs arbitrary: s)
  case Nil
  then show ?case by simp
next
  case (Cons e evs)
  from Cons.prems(1) obtain s1 where s1: "act e s = Some s1" "proceed evs s1 = Some s'"
    by (auto split: option.splits)
  from Cons.prems(3) s1(1) have l: "e = Lapse k \<longrightarrow> idle k s" "lapsesIdle k evs s1"
    by auto
  from s1(1) Cons.prems(2) l(1) have "steady k s1"
    by (rule act_steady)
  with Cons.IH [OF s1(2)] l(2) show ?case by blast
qed

lemma proceed_ready:
  "proceed evs s = Some s' \<Longrightarrow> steady k s \<Longrightarrow> Lapse k \<notin> set evs \<Longrightarrow>
   statusAt (inner s) k = Some ''ready'' \<Longrightarrow> statusAt (inner s') k = Some ''ready''"
proof (induction evs arbitrary: s)
  case Nil
  then show ?case by simp
next
  case (Cons e evs)
  from Cons.prems(1) obtain s1 where s1: "act e s = Some s1" "proceed evs s1 = Some s'"
    by (auto split: option.splits)
  from Cons.prems(3) have n: "e \<noteq> Lapse k" "Lapse k \<notin> set evs"
    by auto
  from s1(1) Cons.prems(2) n(1) have st: "steady k s1"
    by (intro act_steady [of e s s1 k]) simp_all
  from Cons.prems(2) Cons.prems(4) have "\<not> list_ex (placeholderCmd k) (outbox s)"
    by (simp add: steady_def)
  then have "\<not> (\<exists>i b rest. outbox s = SetPlaceholder i k b # rest)"
    by auto
  with act_ready [OF s1(1) Cons.prems(4)] n(1) have "statusAt (inner s1) k = Some ''ready''"
    by blast
  with Cons.IH [OF s1(2) st n(2)] show ?case by blast
qed

text \<open>
  A run over the one connection in which a ready entry becomes pending again. The
  placeholder of a first invocation lapses while its explanation is still being computed.
  A second invocation reads and finds no entry; before its answer arrives, the
  explanation is stored, and a third invocation reads the ready entry. Then the second
  invocation gets its answer and writes its placeholder over the ready entry, and a
  fourth invocation reads a pending entry. Nothing lapses after the entry is ready.
\<close>

theorem C4_ready_overwritten_counterexample:
  "\<not> Option.is_none (proceed (lateExplanation @ placeholderAfterReady) (started Map.empty)) \<and>
   statusAt (inner (the (proceed lateExplanation (started Map.empty)))) exampleKey
     = Some ''ready'' \<and>
   list_all (\<lambda>e. e \<noteq> Lapse exampleKey) placeholderAfterReady \<and>
   c_pc (calls (inner (the (proceed (lateExplanation @ placeholderAfterReady)
      (started Map.empty)))) ! 2)
     = Done (Some \<lparr> m_status = Some ''ready'', m_score = 82 \<rparr>) ''ready'' \<and>
   c_pc (calls (inner (the (proceed (lateExplanation @ placeholderAfterReady)
      (started Map.empty)))) ! 3)
     = Done (Some \<lparr> m_status = Some ''pending'', m_score = 70 \<rparr>) ''pending'' \<and>
   statusAt (inner (the (proceed (lateExplanation @ placeholderAfterReady)
      (started Map.empty)))) exampleKey = Some ''pending'' \<and>
   \<not> lapsesIdle exampleKey lateExplanation (started Map.empty)"
  by code_simp

text \<open>
  Claim C4, amended. A step that takes away the status \<open>ready\<close> of an entry is either the
  end of its time to live or the cache executing a placeholder write for the key; the
  write of an explanation only stores \<open>ready\<close>. Over the one connection of the client,
  in every run of a freshly started process in which an entry of the key lapses only
  when nothing is under way for the key (no computation in flight, no write of an
  explanation and no answer that tells of an entry on its way), an entry that is ready
  stays ready through every continuation in which it does not lapse: every later read
  finds it ready.
\<close>

theorem C4_ready_stays_ready:
  "(statusAt (inner s) k = Some ''ready'' \<and> act e s = Some s' \<and>
    statusAt (inner s') k \<noteq> Some ''ready'' \<longrightarrow>
      e = Lapse k \<or> (e = Serve \<and> (\<exists>i b rest. outbox s = SetPlaceholder i k b # rest))) \<and>
   (proceed evs1 (started cache0) = Some s1 \<and> lapsesIdle k evs1 (started cache0) \<and>
    statusAt (inner s1) k = Some ''ready'' \<and>
    proceed evs2 s1 = Some s2 \<and> Lapse k \<notin> set evs2 \<longrightarrow>
      statusAt (inner s2) k = Some ''ready'')"
proof (intro conjI impI)
  assume "statusAt (inner s) k = Some ''ready'' \<and> act e s = Some s' \<and>
    statusAt (inner s') k \<noteq> Some ''ready''"
  then show "e = Lapse k \<or> (e = Serve \<and> (\<exists>i b rest. outbox s = SetPlaceholder i k b # rest))"
    using act_ready [of e s s' k] by blast
next
  assume h: "proceed evs1 (started cache0) = Some s1 \<and> lapsesIdle k evs1 (started cache0) \<and>
    statusAt (inner s1) k = Some ''ready'' \<and>
    proceed evs2 s1 = Some s2 \<and> Lapse k \<notin> set evs2"
  then have "steady k s1"
    using proceed_steady [of evs1 "started cache0" s1 k] started_steady [of k cache0] by blast
  with h show "statusAt (inner s2) k = Some ''ready''"
    using proceed_ready [of evs2 s1 s2 k] by blast
qed

text \<open>
  A run in which the entry lapses after its computation is over and is explained a second
  time; two later invocations side by side find it ready.
\<close>

theorem C4_ready_stays_ready_witness:
  "\<not> Option.is_none (proceed explainedTwice (started Map.empty)) \<and>
   lapsesIdle exampleKey explainedTwice (started Map.empty) \<and>
   list_ex (\<lambda>e. e = Lapse exampleKey) explainedTwice \<and>
   statusAt (inner (the (proceed explainedTwice (started Map.empty)))) exampleKey
     = Some ''ready'' \<and>
   \<not> Option.is_none (proceed laterCalls (the (proceed explainedTwice (started Map.empty)))) \<and>
   list_all (\<lambda>e. e \<noteq> Lapse exampleKey) laterCalls \<and>
   statusAt (inner (the (proceed laterCalls (the (proceed explainedTwice
      (started Map.empty)))))) exampleKey = Some ''ready'' \<and>
   map c_pc (drop 2 (calls (inner (the (proceed laterCalls (the (proceed explainedTwice
      (started Map.empty))))))))
     = [Done (Some \<lparr> m_status = Some ''ready'', m_score = 84 \<rparr>) ''ready'',
        Done (Some \<lparr> m_status = Some ''ready'', m_score = 84 \<rparr>) ''ready'']"
proof -
  let ?s1 = "the (proceed explainedTwice (started Map.empty))"
  let ?s2 = "the (proceed laterCalls ?s1)"
  have d1: "\<not> Option.is_none (proceed explainedTwice (started Map.empty))"
    by code_simp
  then have r1: "proceed explainedTwice (started Map.empty) = Some ?s1"
    by (auto simp: Option.is_none_def)
  have li: "lapsesIdle exampleKey explainedTwice (started Map.empty)"
    by code_simp
  have le: "list_ex (\<lambda>e. e = Lapse exampleKey) explainedTwice"
    by (simp add: explainedTwice_def)
  have rd: "statusAt (inner ?s1) exampleKey = Some ''ready''"
    by code_simp
  have d2: "\<not> Option.is_none (proceed laterCalls ?s1)"
    by code_simp
  then have r2: "proceed laterCalls ?s1 = Some ?s2"
    by (auto simp: Option.is_none_def)
  have nl: "Lapse exampleKey \<notin> set laterCalls"
    by (simp add: laterCalls_def callExample_def)
  from r1 li rd r2 nl
    C4_ready_stays_ready [of _ exampleKey _ _ explainedTwice Map.empty ?s1 laterCalls ?s2]
  have "statusAt (inner ?s2) exampleKey = Some ''ready''"
    by blast
  moreover from nl have "list_all (\<lambda>e. e \<noteq> Lapse exampleKey) laterCalls"
    by (auto simp: list_all_iff)
  moreover have "map c_pc (drop 2 (calls (inner ?s2)))
     = [Done (Some \<lparr> m_status = Some ''ready'', m_score = 84 \<rparr>) ''ready'',
        Done (Some \<lparr> m_status = Some ''ready'', m_score = 84 \<rparr>) ''ready'']"
    by code_simp
  ultimately show ?thesis
    using d1 li le rd d2 by blast
qed


section \<open>The fallback sequence of the aggregator\<close>


lemma searchJSearch_searches [simp]:
  "searches (snd (searchJSearch e c st)) = searches st @ [c]"
  by (simp add: searchJSearch_def Let_def split: response.splits)

lemma isCoolingDown_searches [simp]:
  "searches (snd (isCoolingDown e st)) = searches st"
  by (simp add: isCoolingDown_def)

lemma isCoolingDown_fst:
  "fst (isCoolingDown e st) = coolingAt e st 0"
  by (simp add: isCoolingDown_def coolingAt_def)

lemma searchJSearch_quiet:
  assumes "alwaysEmpty e"
  shows "fst (searchJSearch e c st) = []"
    and "lastRateLimitHit (snd (searchJSearch e c st)) = lastRateLimitHit st"
    and "clockReads (snd (searchJSearch e c st)) =
           clockReads st + (if JSEARCH_API_KEY e then 1 else 0)"
  using assms by (simp_all add: searchJSearch_def alwaysEmpty_def Let_def)

lemma coolingAt_search:
  "alwaysEmpty e \<Longrightarrow>
   coolingAt e (snd (searchJSearch e c st)) k =
     coolingAt e st (k + (if JSEARCH_API_KEY e then 1 else 0))"
  by (simp add: coolingAt_def searchJSearch_quiet add.commute add.left_commute)

lemma uniqueById_Nil [simp]: "uniqueById [] = []"
  by (simp add: uniqueById_def)

lemma fetchCombined_quiet:
  assumes q: "alwaysEmpty e" and l: "1 \<le> appliedLimit"
  shows "fst (fetchCombined e c appliedLimit w st) = []"
    and "fst (snd (fetchCombined e c appliedLimit w st)) = []"
    and "searches (snd (snd (fetchCombined e c appliedLimit w st))) =
           searches st @ [c] @
           (if w \<noteq> ''month'' then [c\<lparr> datePosted := Some ''month'' \<rparr>] else []) @
           (if coolingAt e st
                 (if JSEARCH_API_KEY e then (if w \<noteq> ''month'' then 2 else 1) else 0)
            then [] else [c\<lparr> page := Some 2 \<rparr>, c\<lparr> page := Some 3 \<rparr>])"
  using l
  by (simp_all add: fetchCombined_def Let_def split_beta searchJSearch_quiet [OF q]
      isCoolingDown_fst coolingAt_search [OF q] numeral_2_eq_2)

lemma altLocationLoop_searches:
  "length (searches (snd (altLocationLoop e c cap locs filtered st)))
     \<le> length (searches st) + length locs"
proof (induction locs arbitrary: filtered st)
  case Nil
  then show ?case by simp
next
  case (Cons l locs)
  show ?case
  proof (cases "int (length filtered) \<ge> cap")
    case True
    then show ?thesis by simp
  next
    case False
    let ?ac = "c\<lparr> cr_location := Some l, limit := Some (min 5 (cap - int (length filtered))) \<rparr>"
    let ?r = "searchJSearch e ?ac st"
    let ?new = "filter (\<lambda>j. jid j \<notin> set (map jid filtered)) (fst ?r)"
    from False have "altLocationLoop e c cap (l # locs) filtered st =
        altLocationLoop e c cap locs (filtered @ ?new) (snd ?r)"
      by (simp add: Let_def split_beta)
    with Cons.IH [of "filtered @ ?new" "snd ?r"] show ?thesis by simp
  qed
qed

lemma similarRoleLoop_searches:
  "length (searches (snd (similarRoleLoop e c cap keep rs filtered st)))
     \<le> length (searches st) + length rs"
proof (induction rs arbitrary: filtered st)
  case Nil
  then show ?case by simp
next
  case (Cons r rs)
  show ?case
  proof (cases "int (length filtered) \<ge> cap")
    case True
    then show ?thesis by simp
  next
    case False
    let ?fc = "c\<lparr> query := Some r, limit := Some (min 5 (cap - int (length filtered))) \<rparr>"
    let ?r = "searchJSearch e ?fc st"
    let ?new = "filter (\<lambda>j. jid j \<notin> set (map jid filtered)) (filter keep (fst ?r))"
    from False have "similarRoleLoop e c cap keep (r # rs) filtered st =
        similarRoleLoop e c cap keep rs (filtered @ ?new) (snd ?r)"
      by (simp add: Let_def split_beta)
    with Cons.IH [of "filtered @ ?new" "snd ?r"] show ?thesis by simp
  qed
qed

lemma fetchCombined_searches:
  "length (searches (snd (snd (fetchCombined e c appliedLimit w st))))
     \<le> length (searches st) + 4"
  by (simp add: fetchCombined_def Let_def split_beta)

lemma locationStage_searches:
  "length (searches (snd (snd (locationStage e c cap cands ro keep av combined st))))
     \<le> length (searches st) + 3"
proof -
  have "\<And>xs f s. length (searches (snd (altLocationLoop e c cap (take 3 xs) f s)))
          \<le> length (searches s) + 3"
  proof -
    fix xs :: "string list" and f s
    have "length (take 3 xs) \<le> 3" by simp
    with altLocationLoop_searches [of e c cap "take 3 xs" f s]
    show "length (searches (snd (altLocationLoop e c cap (take 3 xs) f s)))
          \<le> length (searches s) + 3"
      by linarith
  qed
  note a = this [of _ _ "snd (isCoolingDown e st)", simplified]
  show ?thesis
    by (simp add: locationStage_def Let_def split_beta a)
qed

lemma similarStage_searches:
  "length (searches (snd (similarStage e c cap keep av q filtered st)))
     \<le> length (searches st) + 2"
proof -
  have "\<And>xs f s. length (searches (snd (similarRoleLoop e c cap keep (take 2 xs) f s)))
          \<le> length (searches s) + 2"
  proof -
    fix xs :: "string list" and f s
    have "length (take 2 xs) \<le> 2" by simp
    with similarRoleLoop_searches [of e c cap keep "take 2 xs" f s]
    show "length (searches (snd (similarRoleLoop e c cap keep (take 2 xs) f s)))
          \<le> length (searches s) + 2"
      by linarith
  qed
  note a = this [of _ _ "snd (isCoolingDown e st)", simplified]
  show ?thesis
    by (simp add: similarStage_def Let_def split_beta a)
qed

lemma aggregateJobs_searches:
  "length (searches (snd (aggregateJobs e raw st))) \<le> length (searches st) + 9"
proof -
  let ?c = "finalCriteria raw"
  let ?f = "fetchCombined e ?c (appliedLimitOf raw) (baseDateWindowOf raw) st"
  have 1: "length (searches (snd (snd ?f))) \<le> length (searches st) + 4"
    by (rule fetchCombined_searches)
  obtain keep cands where
    s: "snd (aggregateJobs e raw st) =
      snd (similarStage e ?c (appliedLimitOf raw) keep (length (fst ?f) > 0) (query raw)
        (fst (locationStage e ?c (appliedLimitOf raw) cands (remoteOnly ?c) keep
           (length (fst ?f) > 0) (fst (snd ?f)) (snd (snd ?f))))
        (snd (snd (locationStage e ?c (appliedLimitOf raw) cands (remoteOnly ?c) keep
           (length (fst ?f) > 0) (fst (snd ?f)) (snd (snd ?f))))))"
    by (simp add: aggregateJobs_def Let_def split_beta)
  let ?l = "locationStage e ?c (appliedLimitOf raw) cands (remoteOnly ?c) keep
           (length (fst ?f) > 0) (fst (snd ?f)) (snd (snd ?f))"
  have 2: "length (searches (snd (snd ?l))) \<le> length (searches (snd (snd ?f))) + 3"
    by (rule locationStage_searches)
  have 3: "length (searches (snd (similarStage e ?c (appliedLimitOf raw) keep
             (length (fst ?f) > 0) (query raw) (fst ?l) (snd (snd ?l)))))
           \<le> length (searches (snd (snd ?l))) + 2"
    by (rule similarStage_searches)
  show ?thesis unfolding s using 1 2 3 by linarith
qed

lemma aggregateJobs_quiet:
  assumes q: "alwaysEmpty e"
  shows "fst (aggregateJobs e raw st) =
           Inr \<lparr> results = [],
                 a_meta = \<lparr> total = 0, m_returned = 0, agent = finalCriteria raw,
                            suggestions = [], sourceCounts = [] \<rparr> \<rparr>"
    and "searches (snd (aggregateJobs e raw st)) =
           searches st @ [finalCriteria raw] @
           (if baseDateWindowOf raw \<noteq> ''month''
            then [(finalCriteria raw)\<lparr> datePosted := Some ''month'' \<rparr>] else []) @
           (if coolingAt e st
                 (if JSEARCH_API_KEY e
                  then (if baseDateWindowOf raw \<noteq> ''month'' then 2 else 1) else 0)
            then []
            else [(finalCriteria raw)\<lparr> page := Some 2 \<rparr>, (finalCriteria raw)\<lparr> page := Some 3 \<rparr>])"
proof -
  have l: "1 \<le> appliedLimitOf raw" by (simp add: appliedLimitOf_def)
  note f = fetchCombined_quiet [OF q l]
  show "fst (aggregateJobs e raw st) =
           Inr \<lparr> results = [],
                 a_meta = \<lparr> total = 0, m_returned = 0, agent = finalCriteria raw,
                            suggestions = [], sourceCounts = [] \<rparr> \<rparr>"
    by (simp add: aggregateJobs_def Let_def split_beta f locationStage_def similarStage_def
        finishAggregate_def)
  show "searches (snd (aggregateJobs e raw st)) =
           searches st @ [finalCriteria raw] @
           (if baseDateWindowOf raw \<noteq> ''month''
            then [(finalCriteria raw)\<lparr> datePosted := Some ''month'' \<rparr>] else []) @
           (if coolingAt e st
                 (if JSEARCH_API_KEY e
                  then (if baseDateWindowOf raw \<noteq> ''month'' then 2 else 1) else 0)
            then []
            else [(finalCriteria raw)\<lparr> page := Some 2 \<rparr>, (finalCriteria raw)\<lparr> page := Some 3 \<rparr>])"
    by (simp add: aggregateJobs_def Let_def split_beta f locationStage_def similarStage_def)
qed

text \<open>
  With a source that answers every request with an empty list: when the requested window
  is \<open>month\<close>, the calls are the base fetch and the pages 2 and 3, with no relaxed
  fetch; during a cooldown, the calls are the base fetch and the relaxed one, with no
  page fetch.
\<close>

theorem C5_fallback_counterexample:
  "searches (snd (aggregateJobs quietEnv (backendCriteria\<lparr> datePosted := Some ''month'' \<rparr>)
      freshSource)) =
     [backendFinal\<lparr> datePosted := Some ''month'' \<rparr>,
      backendFinal\<lparr> datePosted := Some ''month'', page := Some 2 \<rparr>,
      backendFinal\<lparr> datePosted := Some ''month'', page := Some 3 \<rparr>] \<and>
   searches (snd (aggregateJobs quietEnv backendCriteria coolingSource)) =
     [backendFinal, backendFinal\<lparr> datePosted := Some ''month'' \<rparr>]"
  by code_simp

text \<open>
  Claim C5, amended. Whatever the source returns, \<open>aggregateJobs\<close> calls
  \<open>searchJSearch\<close> at most 9 times: at most 4 times for the base fetch, the relaxed window
  and the pages 2 and 3, at most 3 times for alternate locations and at most 2 times for
  similar roles. If the source answers every request with an empty list, the calls are
  the base fetch, then one fetch with the window relaxed to \<open>month\<close> unless the window
  already is \<open>month\<close>, then the pages 2 and 3 unless the source is cooling down at that
  moment, and no other: no alternate location and no similar role is tried. The function
  then returns, without raising, an empty list of results with \<open>total\<close> and \<open>returned\<close> 0.
\<close>

theorem C5_fallback_terminates:
  "length (searches (snd (aggregateJobs e raw st))) \<le> length (searches st) + 9 \<and>
   length (searches (snd (snd (fetchCombined e c cap w st)))) \<le> length (searches st) + 4 \<and>
   length (searches (snd (snd (locationStage e c cap cands ro keep av combined st))))
     \<le> length (searches st) + 3 \<and>
   length (searches (snd (similarStage e c cap keep av q filtered st)))
     \<le> length (searches st) + 2 \<and>
   (alwaysEmpty e \<longrightarrow>
      fst (aggregateJobs e raw st) =
        Inr \<lparr> results = [],
              a_meta = \<lparr> total = 0, m_returned = 0, agent = finalCriteria raw,
                         suggestions = [], sourceCounts = [] \<rparr> \<rparr> \<and>
      searches (snd (aggregateJobs e raw st)) =
        searches st @ [finalCriteria raw] @
        (if baseDateWindowOf raw \<noteq> ''month''
         then [(finalCriteria raw)\<lparr> datePosted := Some ''month'' \<rparr>] else []) @
        (if coolingAt e st
              (if JSEARCH_API_KEY e
               then (if baseDateWindowOf raw \<noteq> ''month'' then 2 else 1) else 0)
         then []
         else [(finalCriteria raw)\<lparr> page := Some 2 \<rparr>, (finalCriteria raw)\<lparr> page := Some 3 \<rparr>]))"
  using aggregateJobs_searches [of e raw st] fetchCombined_searches [of e c cap w st]
    locationStage_searches [of e c cap cands ro keep av combined st]
    similarStage_searches [of e c cap keep av q filtered st]
    aggregateJobs_quiet [of e raw st]
  by blast

text \<open>
  A search for backend developers in Berlin against a source that has nothing: four
  calls, empty result.
\<close>

theorem C5_fallback_terminates_witness:
  "alwaysEmpty quietEnv \<and>
   fst (aggregateJobs quietEnv backendCriteria freshSource) =
     Inr \<lparr> results = [],
           a_meta = \<lparr> total = 0, m_returned = 0, agent = backendFinal,
                      suggestions = [], sourceCounts = [] \<rparr> \<rparr> \<and>
   searches (snd (aggregateJobs quietEnv backendCriteria freshSource)) =
     [backendFinal, backendFinal\<lparr> datePosted := Some ''month'' \<rparr>,
      backendFinal\<lparr> page := Some 2 \<rparr>, backendFinal\<lparr> page := Some 3 \<rparr>]"
proof -
  have q: "alwaysEmpty quietEnv"
    by (simp add: alwaysEmpty_def quietEnv_def)
  have f: "finalCriteria backendCriteria = backendFinal"
    by code_simp
  have w: "baseDateWindowOf backendCriteria \<noteq> ''month''"
    by code_simp
  have k: "JSEARCH_API_KEY quietEnv" "\<not> coolingAt quietEnv freshSource 2"
    "searches freshSource = []"
    by (simp_all add: quietEnv_def coolingAt_def freshSource_def RATE_LIMIT_COOLDOWN_MS_def)
  from q f w k C5_fallback_terminates [of quietEnv backendCriteria freshSource]
  show ?thesis by simp
qed

end
